theory Spec2Isabelle
  imports Complex_Main "HOL-Library.Multiset"
begin

section \<open>JavaScript values used by the pricing utilities\<close>

text \<open>
  The pricing fields of a listing are numeric database columns that may be null.
  A field value is modelled as \<open>rat option\<close>: \<open>None\<close> is an absent field
  (\<open>undefined\<close> or \<open>null\<close>), \<open>Some x\<close> is the finite number with the exact value \<open>x\<close>.
  A value is truthy when it is a number other than zero.
\<close>

definition truthy :: "rat option \<Rightarrow> bool" where
  "truthy v = (case v of None \<Rightarrow> False | Some x \<Rightarrow> x \<noteq> 0)"

text \<open>\<^verbatim>\<open>a || b\<close> on field values.\<close>

definition js_or :: "rat option \<Rightarrow> rat option \<Rightarrow> rat option" where
  "js_or a b = (if truthy a then a else b)"

text \<open>\<^verbatim>\<open>a || n\<close> where the right operand is a number: the result is a number.\<close>

definition or_number :: "rat option \<Rightarrow> rat \<Rightarrow> rat" where
  "or_number a n = (case a of None \<Rightarrow> n | Some x \<Rightarrow> if x \<noteq> 0 then x else n)"

text \<open>\<^verbatim>\<open>parseFloat\<close> applied to a number returns that number.\<close>

definition parseFloat :: "rat \<Rightarrow> rat" where
  "parseFloat x = x"

text \<open>
  The test \<^verbatim>\<open>price && price > 0\<close> followed by \<^verbatim>\<open>parseFloat(price)\<close>: the parsed price
  when the test succeeds, nothing otherwise.
\<close>

definition valid_price :: "rat option \<Rightarrow> rat option" where
  "valid_price v =
     (case v of None \<Rightarrow> None
      | Some p \<Rightarrow> if p \<noteq> 0 \<and> p > 0 then Some (parseFloat p) else None)"

section \<open>Listings\<close>

text \<open>
  The fields of a listing object that the pricing utilities read:
  \<^verbatim>\<open>listing['Price n nights selected']\<close>, the emoji-prefixed
  \<^verbatim>\<open>listing['Nightly Host Rate for n nights']\<close>, \<^verbatim>\<open>listing['Starting nightly price']\<close>
  and \<^verbatim>\<open>listing.price?.starting\<close>.
\<close>

record listing =
  Price_nights_selected :: "int \<Rightarrow> rat option"
  Nightly_Host_Rate_for_nights :: "int \<Rightarrow> rat option"
  Starting_nightly_price :: "rat option"
  price_starting :: "rat option"

record price_point =
  nights :: int
  price :: rat

section \<open>Array.prototype.sort\<close>

text \<open>
  \<^verbatim>\<open>xs.sort(cmp)\<close> is a stable sort: \<open>a\<close> stays before \<open>b\<close> unless \<open>cmp(a, b) > 0\<close>.
  It is modelled by a stable insertion sort; for a consistent comparator every stable
  sort returns the same array.
\<close>

fun js_insert :: "('a \<Rightarrow> 'a \<Rightarrow> int) \<Rightarrow> 'a \<Rightarrow> 'a list \<Rightarrow> 'a list" where
  "js_insert cmp x [] = [x]"
| "js_insert cmp x (y # ys) =
     (if cmp x y \<le> 0 then x # y # ys else y # js_insert cmp x ys)"

fun js_sort :: "('a \<Rightarrow> 'a \<Rightarrow> int) \<Rightarrow> 'a list \<Rightarrow> 'a list" where
  "js_sort cmp [] = []"
| "js_sort cmp (x # xs) = js_insert cmp x (js_sort cmp xs)"

text \<open>\<^verbatim>\<open>xs[0]\<close> where the source tests the result for \<^verbatim>\<open>undefined\<close>.\<close>

definition first :: "'a list \<Rightarrow> 'a option" where
  "first xs = (case xs of [] \<Rightarrow> None | x # _ \<Rightarrow> Some x)"

section \<open>Arithmetic on doubles\<close>

text \<open>
  JavaScript numbers are IEEE 754 double-precision values. A finite double is a rational
  \<open>m * 2 ^ q\<close> with \<open>\<bar>m\<bar> < 2 ^ 53\<close> and \<open>q \<ge> -1074\<close>. An arithmetic operation returns the
  exact result rounded to the nearest double, a tie going to the even significand:
  \<open>fl\<close> is that rounding. Overflow to \<^verbatim>\<open>Infinity\<close> is not modelled.
\<close>

text \<open>The number of binary digits of a natural number.\<close>

fun bit_length :: "nat \<Rightarrow> nat" where
  "bit_length n = (if n = 0 then 0 else Suc (bit_length (n div 2)))"

declare bit_length.simps [simp del]

definition pow2 :: "int \<Rightarrow> rat" where
  "pow2 k = (if 0 \<le> k then 2 ^ nat k else 1 / 2 ^ nat (- k))"

text \<open>For \<open>x > 0\<close>, the exponent \<open>e\<close> with \<open>2 ^ e \<le> x < 2 ^ (e + 1)\<close>.\<close>

definition ilog2 :: "rat \<Rightarrow> int" where
  "ilog2 x =
     (if 1 \<le> x then int (bit_length (nat \<lfloor>x\<rfloor>)) - 1
      else - int (bit_length (nat (\<lceil>1 / x\<rceil> - 1))))"

definition round_half_even :: "rat \<Rightarrow> int" where
  "round_half_even x =
     (let f = \<lfloor>x\<rfloor>; r = x - of_int f
      in if r < 1 / 2 then f
         else if 1 / 2 < r then f + 1
         else if even f then f else f + 1)"

definition fl :: "rat \<Rightarrow> rat" where
  "fl x =
     (if x = 0 then 0
      else
        (let e = ilog2 \<bar>x\<bar>;
             q = max (e - 52) (- 1074)
         in of_int (round_half_even (x / pow2 q)) * pow2 q))"

section \<open>interpolatePricing\<close>

text \<open>The loop over the night counts 2 to 7 that collects \<^verbatim>\<open>availablePrices\<close>.\<close>

definition availablePrices :: "listing \<Rightarrow> price_point list" where
  "availablePrices listing =
     List.map_filter
       (\<lambda>n. case valid_price (js_or (Price_nights_selected listing n)
                                      (Nightly_Host_Rate_for_nights listing n)) of
               None \<Rightarrow> None
             | Some p \<Rightarrow> Some \<lparr>nights = n, price = p\<rparr>)
       [2, 3, 4, 5, 6, 7]"

definition lowerPrice :: "price_point list \<Rightarrow> int \<Rightarrow> price_point option" where
  "lowerPrice ap targetNights =
     first (js_sort (\<lambda>a b. nights b - nights a) (filter (\<lambda>p. nights p < targetNights) ap))"

definition higherPrice :: "price_point list \<Rightarrow> int \<Rightarrow> price_point option" where
  "higherPrice ap targetNights =
     first (js_sort (\<lambda>a b. nights a - nights b) (filter (\<lambda>p. nights p > targetNights) ap))"

text \<open>
  The closest available point, \<^verbatim>\<open>availablePrices.sort(...)[0]\<close>. The source reads it only
  when the array has at least two elements.
\<close>

definition closest :: "price_point list \<Rightarrow> int \<Rightarrow> price_point" where
  "closest ap targetNights =
     hd (js_sort (\<lambda>a b. \<bar>nights a - targetNights\<bar> - \<bar>nights b - targetNights\<bar>) ap)"

text \<open>
  The night counts are small integers, so their differences are exact; the division,
  the multiplication, the subtraction of the prices and the final addition are each
  rounded.
\<close>

definition interpolatePricing :: "listing \<Rightarrow> int \<Rightarrow> rat" where
  "interpolatePricing listing targetNights =
     (let ap = availablePrices listing in
      if length ap < 2 then 0
      else
        (case (lowerPrice ap targetNights, higherPrice ap targetNights) of
           (Some lo, Some hi) \<Rightarrow>
             (let nightsRange = nights hi - nights lo;
                  priceRange = fl (price hi - price lo)
              in fl (price lo
                       + fl (fl (of_int (targetNights - nights lo) / of_int nightsRange)
                               * priceRange)))
         | _ \<Rightarrow> price (closest ap targetNights)))"

section \<open>calculateDynamicPrice\<close>

text \<open>The final fallback of \<^verbatim>\<open>calculateDynamicPrice\<close>: the starting price, or 0.\<close>

definition startingPriceFallback :: "listing \<Rightarrow> rat" where
  "startingPriceFallback listing =
     (let startingPrice =
            or_number (js_or (Starting_nightly_price listing) (price_starting listing)) 0
      in or_number (Some (parseFloat startingPrice)) 0)"

definition nightsCount :: "int \<Rightarrow> int" where
  "nightsCount selectedDaysCount = max (selectedDaysCount - 1) 1"

definition calculateDynamicPrice :: "listing \<Rightarrow> int \<Rightarrow> rat" where
  "calculateDynamicPrice listing selectedDaysCount =
     (let n = nightsCount selectedDaysCount in
      if 2 \<le> n \<and> n \<le> 7 then
        (case valid_price (Price_nights_selected listing n) of
           Some p \<Rightarrow> p
         | None \<Rightarrow>
            (case valid_price (Nightly_Host_Rate_for_nights listing n) of
               Some p \<Rightarrow> p
             | None \<Rightarrow>
                (let interpolatedPrice = interpolatePricing listing n in
                 if interpolatedPrice > 0 then interpolatedPrice
                 else startingPriceFallback listing)))
      else startingPriceFallback listing)"

section \<open>getPriceForNights\<close>

definition getPriceForNights :: "listing \<Rightarrow> int \<Rightarrow> rat" where
  "getPriceForNights listing n =
     (if n < 2 \<or> n > 7 then
        or_number (js_or (Starting_nightly_price listing) (price_starting listing)) 0
      else
        (case valid_price (js_or (Price_nights_selected listing n)
                                 (Nightly_Host_Rate_for_nights listing n)) of
           Some p \<Rightarrow> p
         | None \<Rightarrow> 0))"

section \<open>Which return statement produced the price\<close>

text \<open>
  The JavaScript returns only the number. The specification's source tag names the
  return statement that produced it: the two exact lookups, the linear interpolation,
  the closest available point, the starting price, or the final 0. The following
  functions follow the same control flow as \<open>interpolatePricing\<close> and
  \<open>calculateDynamicPrice\<close> and return that tag instead of the number.
\<close>

datatype source = Exact | Interpolated | NearestNeighbor | StartingPriceFallback | Unavailable

definition startingPriceFallback_source :: "listing \<Rightarrow> source" where
  "startingPriceFallback_source listing =
     (let startingPrice =
            or_number (js_or (Starting_nightly_price listing) (price_starting listing)) 0
      in if parseFloat startingPrice \<noteq> 0 then StartingPriceFallback else Unavailable)"

definition interpolatePricing_source :: "listing \<Rightarrow> int \<Rightarrow> source option" where
  "interpolatePricing_source listing targetNights =
     (let ap = availablePrices listing in
      if length ap < 2 then None
      else
        (case (lowerPrice ap targetNights, higherPrice ap targetNights) of
           (Some lo, Some hi) \<Rightarrow> Some Interpolated
         | _ \<Rightarrow> Some NearestNeighbor))"

definition calculateDynamicPrice_source :: "listing \<Rightarrow> int \<Rightarrow> source" where
  "calculateDynamicPrice_source listing selectedDaysCount =
     (let n = nightsCount selectedDaysCount in
      if 2 \<le> n \<and> n \<le> 7 then
        (case valid_price (Price_nights_selected listing n) of
           Some p \<Rightarrow> Exact
         | None \<Rightarrow>
            (case valid_price (Nightly_Host_Rate_for_nights listing n) of
               Some p \<Rightarrow> Exact
             | None \<Rightarrow>
                (case interpolatePricing_source listing n of
                   Some s \<Rightarrow>
                     if interpolatePricing listing n > 0 then s
                     else startingPriceFallback_source listing
                 | None \<Rightarrow> startingPriceFallback_source listing)))
      else startingPriceFallback_source listing)"

section \<open>The rate table read from the fields\<close>

text \<open>
  A field holds a rate when it is present with a value above 0. A field that is absent,
  zero or negative holds none.
\<close>

definition known :: "rat option \<Rightarrow> rat option" where
  "known v = (case v of None \<Rightarrow> None | Some x \<Rightarrow> if 0 < x then Some x else None)"

definition non_positive :: "rat option \<Rightarrow> bool" where
  "non_positive v = (case v of None \<Rightarrow> True | Some x \<Rightarrow> x \<le> 0)"

text \<open>
  The rate of a listing at a night count from 2 to 7: the plain field when it holds a
  rate, else the emoji field when it holds one.
\<close>

definition rate :: "listing \<Rightarrow> int \<Rightarrow> rat option" where
  "rate l n =
     (if 2 \<le> n \<and> n \<le> 7 then
        (case known (Price_nights_selected l n) of
           Some x \<Rightarrow> Some x
         | None \<Rightarrow> known (Nightly_Host_Rate_for_nights l n))
      else None)"

text \<open>The night counts that have a rate, in ascending order.\<close>

definition known_nights :: "listing \<Rightarrow> int list" where
  "known_nights l = filter (\<lambda>n. rate l n \<noteq> None) [2, 3, 4, 5, 6, 7]"

text \<open>
  A negative plain field in front of an emoji field that holds a rate. The exact lookups
  of \<open>calculateDynamicPrice\<close> test the two fields one after the other and read the emoji
  rate there; the loop of \<open>interpolatePricing\<close> merges the fields with \<^verbatim>\<open>||\<close> before the
  test and reads no rate.
\<close>

definition shadowed :: "listing \<Rightarrow> int \<Rightarrow> bool" where
  "shadowed l n =
     (case Price_nights_selected l n of
        None \<Rightarrow> False
      | Some x \<Rightarrow> x < 0 \<and> known (Nightly_Host_Rate_for_nights l n) \<noteq> None)"

definition unshadowed :: "listing \<Rightarrow> bool" where
  "unshadowed l = list_all (\<lambda>n. \<not> shadowed l n) [2, 3, 4, 5, 6, 7]"

section \<open>Notions used to state the properties\<close>

text \<open>Neither exact lookup of \<open>calculateDynamicPrice\<close> succeeds at night count \<open>n\<close>.\<close>

definition no_exact_rate :: "listing \<Rightarrow> int \<Rightarrow> bool" where
  "no_exact_rate l n =
     (valid_price (Price_nights_selected l n) = None \<and>
      valid_price (Nightly_Host_Rate_for_nights l n) = None)"

text \<open>The listing with both rate fields for night count \<open>n\<close> removed.\<close>

definition erase_rate :: "listing \<Rightarrow> int \<Rightarrow> listing" where
  "erase_rate l n =
     l\<lparr>Price_nights_selected := (Price_nights_selected l)(n := None),
       Nightly_Host_Rate_for_nights := (Nightly_Host_Rate_for_nights l)(n := None)\<rparr>"

text \<open>
  A listing built from a table of \<^verbatim>\<open>'Price n nights selected'\<close> values and a
  \<^verbatim>\<open>'Starting nightly price'\<close>, with the other fields absent; used for concrete inputs.
\<close>

definition sample_listing :: "(int \<times> rat) list \<Rightarrow> rat option \<Rightarrow> listing" where
  "sample_listing rates start =
     \<lparr>Price_nights_selected = map_of rates, Nightly_Host_Rate_for_nights = (\<lambda>_. None),
      Starting_nightly_price = start, price_starting = None\<rparr>"

text \<open>The same with a table for the plain fields and a table for the emoji fields.\<close>

definition sample_listing_both ::
  "(int \<times> rat) list \<Rightarrow> (int \<times> rat) list \<Rightarrow> rat option \<Rightarrow> listing" where
  "sample_listing_both plain emoji start =
     \<lparr>Price_nights_selected = map_of plain, Nightly_Host_Rate_for_nights = map_of emoji,
      Starting_nightly_price = start, price_starting = None\<rparr>"

section \<open>Amenity records and the priority table\<close>

text \<open>
  A row of the table \<^verbatim>\<open>zat_features_amenity\<close> as selected by the query: \<^verbatim>\<open>_id\<close>,
  \<^verbatim>\<open>Name\<close> and \<^verbatim>\<open>Icon\<close>; the last two may be null. Strings are ASCII strings.
\<close>

record amenity_row =
  id_r :: string
  Name :: "string option"
  Icon :: "string option"

text \<open>
  An entry of \<^verbatim>\<open>AMENITY_PRIORITY_MAP\<close>. The emoji of \<^verbatim>\<open>fallbackIcon\<close> is written as its
  list of Unicode code points.
\<close>

record priorityInfo =
  priority :: int
  fallbackIcon :: "nat list"
  fallbackName :: string

definition AMENITY_PRIORITY_MAP :: "(string \<times> priorityInfo) list" where
  "AMENITY_PRIORITY_MAP =
 [(''wifi'', \<lparr>priority = 1, fallbackIcon = [0x1F4F6], fallbackName = ''WiFi''\<rparr>),
  (''air conditioned'', \<lparr>priority = 2, fallbackIcon = [0x2744, 0xFE0F], fallbackName = ''A/C''\<rparr>),
  (''gym'', \<lparr>priority = 3, fallbackIcon = [0x1F4AA], fallbackName = ''Gym''\<rparr>),
  (''elevator'', \<lparr>priority = 4, fallbackIcon = [0x1F3E2], fallbackName = ''Elevator''\<rparr>),
  (''doorman'', \<lparr>priority = 5, fallbackIcon = [0x1F6AA], fallbackName = ''Doorman''\<rparr>),
  (''laundry room'', \<lparr>priority = 6, fallbackIcon = [0x1F9FA], fallbackName = ''Laundry''\<rparr>),
  (''washer'', \<lparr>priority = 7, fallbackIcon = [0x1F9FA], fallbackName = ''Washer/Dryer''\<rparr>),
  (''dryer'', \<lparr>priority = 7, fallbackIcon = [0x1F9FA], fallbackName = ''Washer/Dryer''\<rparr>),
  (''bike storage'', \<lparr>priority = 8, fallbackIcon = [0x1F6B2], fallbackName = ''Bike Storage''\<rparr>),
  (''parking'', \<lparr>priority = 9, fallbackIcon = [0x1F17F, 0xFE0F], fallbackName = ''Parking''\<rparr>),
  (''common outdoor space'', \<lparr>priority = 10, fallbackIcon = [0x1F33F], fallbackName = ''Outdoor Space''\<rparr>),
  (''balcony'', \<lparr>priority = 11, fallbackIcon = [0x1F33F], fallbackName = ''Balcony''\<rparr>),
  (''closet'', \<lparr>priority = 12, fallbackIcon = [0x1F454], fallbackName = ''Closet''\<rparr>),
  (''tv'', \<lparr>priority = 13, fallbackIcon = [0x1F4FA], fallbackName = ''TV''\<rparr>),
  (''computer'', \<lparr>priority = 14, fallbackIcon = [0x1F4BB], fallbackName = ''Computer''\<rparr>),
  (''dedicated workspace'', \<lparr>priority = 15, fallbackIcon = [0x1F4BB], fallbackName = ''Workspace''\<rparr>),
  (''desk'', \<lparr>priority = 15, fallbackIcon = [0x1F4BB], fallbackName = ''Desk''\<rparr>),
  (''towels and linens'', \<lparr>priority = 16, fallbackIcon = [0x1F6CF, 0xFE0F], fallbackName = ''Linens''\<rparr>),
  (''hangers'', \<lparr>priority = 17, fallbackIcon = [0x1F454], fallbackName = ''Hangers''\<rparr>),
  (''locked door'', \<lparr>priority = 18, fallbackIcon = [0x1F512], fallbackName = ''Locked Door''\<rparr>),
  (''hot water'', \<lparr>priority = 19, fallbackIcon = [0x1F4A7], fallbackName = ''Hot Water''\<rparr>),
  (''heating'', \<lparr>priority = 20, fallbackIcon = [0x1F525], fallbackName = ''Heating''\<rparr>),
  (''kitchen'', \<lparr>priority = 21, fallbackIcon = [0x1F373], fallbackName = ''Kitchen''\<rparr>),
  (''coffee maker'', \<lparr>priority = 22, fallbackIcon = [0x2615], fallbackName = ''Coffee Maker''\<rparr>),
  (''dishwasher'', \<lparr>priority = 23, fallbackIcon = [0x1F37D, 0xFE0F], fallbackName = ''Dishwasher''\<rparr>),
  (''pet-friendly'', \<lparr>priority = 24, fallbackIcon = [0x1F415], fallbackName = ''Pet-Friendly''\<rparr>),
  (''dog'', \<lparr>priority = 24, fallbackIcon = [0x1F415], fallbackName = ''Pet-Friendly''\<rparr>),
  (''cat'', \<lparr>priority = 24, fallbackIcon = [0x1F415], fallbackName = ''Pet-Friendly''\<rparr>)]"

text \<open>
  \<^verbatim>\<open>AMENITY_PRIORITY_MAP[key]\<close> reads a property of a plain object: an own property of the
  literal, or else a property inherited from \<^verbatim>\<open>Object.prototype\<close>, whose value is truthy
  and has no \<^verbatim>\<open>priority\<close> and no \<^verbatim>\<open>fallbackIcon\<close>. Of the inherited names only
  \<^verbatim>\<open>constructor\<close> and \<^verbatim>\<open>__proto__\<close> can be the result of \<^verbatim>\<open>toLowerCase\<close>.
\<close>

definition Object_prototype_keys :: "string list" where
  "Object_prototype_keys =
     [''constructor'', ''__defineGetter__'', ''__defineSetter__'', ''hasOwnProperty'',
      ''__lookupGetter__'', ''__lookupSetter__'', ''isPrototypeOf'', ''propertyIsEnumerable'',
      ''toString'', ''valueOf'', ''__proto__'', ''toLocaleString'']"

datatype property = Own priorityInfo | Inherited | NoProperty

definition get_property :: "string \<Rightarrow> property" where
  "get_property key =
     (case map_of AMENITY_PRIORITY_MAP key of
        Some info \<Rightarrow> Own info
      | None \<Rightarrow> if key \<in> set Object_prototype_keys then Inherited else NoProperty)"

text \<open>\<^verbatim>\<open>toLowerCase\<close> on ASCII strings.\<close>

definition toLowerCase :: "string \<Rightarrow> string" where
  "toLowerCase s =
     map (\<lambda>c. case map_of (zip ''ABCDEFGHIJKLMNOPQRSTUVWXYZ'' ''abcdefghijklmnopqrstuvwxyz'') c of
                 Some d \<Rightarrow> d
               | None \<Rightarrow> c) s"

section \<open>fetchAmenityDetails\<close>

text \<open>
  The database client is an external collaborator. Its state is either not initialised,
  or the query fails with an error or an exception, or it answers from the table. The
  answer to \<^verbatim>\<open>.select('_id, Name, Icon').in('_id', amenityIds)\<close> is modelled as the rows of
  the table whose \<^verbatim>\<open>_id\<close> is among \<^verbatim>\<open>amenityIds\<close>, in the order of the table.
\<close>

datatype supabase = NotInitialized | QueryError | QueryException | Table "amenity_row list"

definition fetchAmenityDetails :: "supabase \<Rightarrow> string list \<Rightarrow> amenity_row list" where
  "fetchAmenityDetails api amenityIds =
     (if length amenityIds = 0 then []
      else
        (case api of
           NotInitialized \<Rightarrow> []
         | QueryError \<Rightarrow> []
         | QueryException \<Rightarrow> []
         | Table rows \<Rightarrow> filter (\<lambda>r. id_r r \<in> set amenityIds) rows))"

section \<open>parseAmenities\<close>

datatype category = InUnit | InBuilding

text \<open>
  The objects returned by \<^verbatim>\<open>parseAmenities\<close>, with fields \<^verbatim>\<open>id\<close>, \<^verbatim>\<open>name\<close>, \<^verbatim>\<open>icon\<close>,
  \<^verbatim>\<open>iconUrl\<close>, \<^verbatim>\<open>priority\<close> and \<^verbatim>\<open>category\<close>. A field that may be \<^verbatim>\<open>undefined\<close> or
  \<^verbatim>\<open>null\<close> is an option.
\<close>

record amenity =
  id_a :: string
  name_a :: "string option"
  icon_a :: "nat list option"
  iconUrl_a :: "string option"
  priority_a :: "int option"
  category_a :: category

text \<open>
  The callback of \<^verbatim>\<open>amenityDetails.map\<close>. When the lower-cased name is no property of
  the table the default object with priority 999 and the check mark icon is used (its
  \<^verbatim>\<open>fallbackName\<close> is never read).
\<close>

definition toAmenity :: "string list \<Rightarrow> amenity_row \<Rightarrow> amenity" where
  "toAmenity inUnitIds amenity =
     (let nameLower = toLowerCase (case Name amenity of None \<Rightarrow> [] | Some s \<Rightarrow> s);
          priorityInfo = get_property nameLower
      in \<lparr>id_a = id_r amenity,
          name_a = Name amenity,
          icon_a = (case priorityInfo of
                      Own info \<Rightarrow> Some (fallbackIcon info)
                    | Inherited \<Rightarrow> None
                    | NoProperty \<Rightarrow> Some [0x2713]),
          iconUrl_a = (case Icon amenity of
                         None \<Rightarrow> None
                       | Some s \<Rightarrow>
                           if s = [] then None
                           else if take 2 s = ''//'' then Some (''https:'' @ s)
                           else Some s),
          priority_a = (case priorityInfo of
                          Own info \<Rightarrow> Some (priority info)
                        | Inherited \<Rightarrow> None
                        | NoProperty \<Rightarrow> Some 999),
          category_a = (if id_r amenity \<in> set inUnitIds then InUnit else InBuilding)\<rparr>)"

text \<open>
  The comparator \<^verbatim>\<open>(a, b) => a.priority - b.priority\<close>. With an undefined priority the
  difference is NaN, which \<^verbatim>\<open>sort\<close> treats as 0. The comparator is then no longer
  consistent and the language leaves the resulting order to the implementation; the
  properties of the order proved below are stated for inputs where every priority is a
  number.
\<close>

definition priority_cmp :: "amenity \<Rightarrow> amenity \<Rightarrow> int" where
  "priority_cmp a b =
     (case (priority_a a, priority_a b) of
        (Some p, Some q) \<Rightarrow> p - q
      | _ \<Rightarrow> 0)"

text \<open>
  \<^verbatim>\<open>parseAmenities\<close> on two arrays of ids (on an array \<^verbatim>\<open>parseJson\<close> is the identity).
\<close>

definition parseAmenities :: "supabase \<Rightarrow> string list \<Rightarrow> string list \<Rightarrow> amenity list" where
  "parseAmenities api inUnitIds inBuildingIds =
     (let allAmenityIds = inUnitIds @ inBuildingIds in
      if length allAmenityIds = 0 then []
      else
        (let amenityDetails = fetchAmenityDetails api allAmenityIds;
             amenities = map (toAmenity inUnitIds) amenityDetails
         in js_sort priority_cmp amenities))"

section \<open>Notions used to state the amenity properties\<close>

text \<open>The rank the source gives a display name: the table's priority, or else 999.\<close>

definition name_rank :: "string option \<Rightarrow> int" where
  "name_rank nm =
     (case map_of AMENITY_PRIORITY_MAP (toLowerCase (case nm of None \<Rightarrow> [] | Some s \<Rightarrow> s)) of
        Some info \<Rightarrow> priority info
      | None \<Rightarrow> 999)"

text \<open>The display name lower-cases to a key inherited from \<^verbatim>\<open>Object.prototype\<close>.\<close>

definition inherited_name :: "string option \<Rightarrow> bool" where
  "inherited_name nm =
     (get_property (toLowerCase (case nm of None \<Rightarrow> [] | Some s \<Rightarrow> s)) = Inherited)"

text \<open>
  The lookup as the specification words it: case-insensitive and trimmed. Trimming
  removes the white space at both ends of the name.
\<close>

definition is_space :: "char \<Rightarrow> bool" where
  "is_space c = (c \<in> set [CHR '' '', CHR 0x09, CHR 0x0A, CHR 0x0B, CHR 0x0C, CHR 0x0D])"

definition trim :: "string \<Rightarrow> string" where
  "trim s = rev (dropWhile is_space (rev (dropWhile is_space s)))"

definition spec_rank :: "string \<Rightarrow> int option" where
  "spec_rank nm =
     (case map_of AMENITY_PRIORITY_MAP (toLowerCase (trim nm)) of
        Some info \<Rightarrow> Some (priority info)
      | None \<Rightarrow> None)"

text \<open>A record with a name and no icon; used for concrete inputs.\<close>

definition sample_row :: "string \<Rightarrow> string \<Rightarrow> amenity_row" where
  "sample_row i nm = \<lparr>id_r = i, Name = Some nm, Icon = None\<rparr>"

text \<open>Three records named Closet, WiFi and Unknown-X, in that order.\<close>

definition three_rows :: "amenity_row list" where
  "three_rows = [sample_row ''a'' ''Closet'', sample_row ''b'' ''WiFi'', sample_row ''c'' ''Unknown-X'']"


section \<open>Sorting with a comparator that subtracts keys\<close>

text \<open>
  Every comparator of the source has the form \<open>key a - key b\<close>. For such a comparator
  \<open>js_sort\<close> is the stable sort by that key. Whatever the comparator, the result is a
  permutation of the array.
\<close>

lemma js_insert_insort_key:
  assumes "\<And>y. y \<in> set xs \<Longrightarrow> (cmp x y \<le> 0) = (f x \<le> f y)"
  shows "js_insert cmp x xs = insort_key f x xs"
  using assms by (induction xs) simp_all

lemma js_sort_sort_key:
  assumes "\<And>a b. a \<in> set xs \<Longrightarrow> b \<in> set xs \<Longrightarrow> (cmp a b \<le> 0) = (f a \<le> f b)"
  shows "js_sort cmp xs = sort_key f xs"
  using assms
proof (induction xs)
  case Nil
  then show ?case by simp
next
  case (Cons x xs)
  then have "js_sort cmp xs = sort_key f xs" by simp
  moreover have "js_insert cmp x (sort_key f xs) = insort_key f x (sort_key f xs)"
    by (rule js_insert_insort_key) (simp add: Cons.prems)
  ultimately show ?case by simp
qed

lemma mset_js_insert: "mset (js_insert cmp x xs) = add_mset x (mset xs)"
  by (induction xs) simp_all

lemma mset_js_sort: "mset (js_sort cmp xs) = mset xs"
  by (induction xs) (simp_all add: mset_js_insert)

lemma set_js_sort: "set (js_sort cmp xs) = set xs"
  using mset_js_sort [of cmp xs] by (metis set_mset_mset)

lemma hd_sort_key_min:
  assumes "xs \<noteq> []"
  shows "hd (sort_key f xs) \<in> set xs \<and> (\<forall>y\<in>set xs. f (hd (sort_key f xs)) \<le> f y)"
proof -
  let ?ys = "sort_key f xs"
  have ne: "?ys \<noteq> []" using assms by (metis length_sort length_0_conv)
  then obtain z zs where ys: "?ys = z # zs" by (cases ?ys) auto
  have "sorted (map f ?ys)" by simp
  with ys have "\<forall>y\<in>set zs. f z \<le> f y" by simp
  moreover have "set ?ys = set xs" by simp
  ultimately show ?thesis using ys by (metis list.sel(1) list.set_intros(1) order_refl set_ConsD)
qed

lemma js_insert_not_Nil: "js_insert cmp x xs \<noteq> []"
  by (cases xs) simp_all

lemma js_sort_Nil_iff: "js_sort cmp xs = [] \<longleftrightarrow> xs = []"
  by (cases xs) (simp_all add: js_insert_not_Nil)

section \<open>Rounding to a double\<close>

text \<open>
  The exponent computed by \<open>ilog2\<close> is the binary exponent of its argument, and \<open>fl x\<close> is
  a double \<open>m * 2 ^ q\<close> with \<open>\<bar>m\<bar> \<le> 2 ^ 53\<close> and \<open>q \<ge> -1074\<close> at a distance of at most half a
  unit in the last place from \<open>x\<close>.
\<close>

lemma bit_length_pos: "0 < n \<Longrightarrow> 0 < bit_length n"
  by (subst bit_length.simps) simp

lemma bit_length_bounds:
  "0 < n \<Longrightarrow> 2 ^ (bit_length n - 1) \<le> n \<and> n < 2 ^ bit_length n"
proof (induction n rule: bit_length.induct)
  case (1 n)
  show ?case
  proof (cases "n div 2 = 0")
    case True
    with "1.prems" have "n = 1" by (auto simp: div_eq_0_iff)
    moreover have "bit_length 1 = 1"
      by (simp add: bit_length.simps [of "Suc 0"] bit_length.simps [of 0])
    ultimately show ?thesis by simp
  next
    case False
    then have pos: "0 < n div 2" by simp
    with "1.IH" "1.prems"
    have IH: "2 ^ (bit_length (n div 2) - 1) \<le> n div 2" "n div 2 < 2 ^ bit_length (n div 2)"
      by simp_all
    from pos have bl: "0 < bit_length (n div 2)" by (rule bit_length_pos)
    have eq: "bit_length n = Suc (bit_length (n div 2))"
      using "1.prems" by (subst bit_length.simps) simp
    have "2 ^ (bit_length n - 1) = 2 * 2 ^ (bit_length (n div 2) - 1)"
      using bl by (simp add: eq flip: power_Suc)
    also have "\<dots> \<le> 2 * (n div 2)" using IH(1) by simp
    also have "\<dots> \<le> n" by simp
    finally have lower: "2 ^ (bit_length n - 1) \<le> n" .
    have "n < 2 * (n div 2) + 2" by presburger
    also have "\<dots> \<le> 2 * 2 ^ bit_length (n div 2)" using IH(2) by simp
    finally have "n < 2 ^ bit_length n" by (simp add: eq)
    with lower show ?thesis by simp
  qed
qed

lemma pow2_nonneg: "0 \<le> k \<Longrightarrow> pow2 k = 2 ^ nat k"
  by (simp add: pow2_def)

lemma pow2_neg: "k < 0 \<Longrightarrow> pow2 k = 1 / 2 ^ nat (- k)"
  by (simp add: pow2_def)

lemma ilog2_bounds:
  assumes "0 < x"
  shows "pow2 (ilog2 x) \<le> x \<and> x < pow2 (ilog2 x + 1)"
proof (cases "1 \<le> x")
  case True
  let ?N = "nat \<lfloor>x\<rfloor>"
  from True have N: "0 < ?N" by simp
  from True have e: "ilog2 x = int (bit_length ?N) - 1" by (simp add: ilog2_def)
  from N have bl: "0 < bit_length ?N" by (rule bit_length_pos)
  note b = bit_length_bounds [OF N]
  have "pow2 (ilog2 x) = 2 ^ (bit_length ?N - 1)"
    using bl by (simp add: e pow2_def nat_diff_distrib)
  also have "\<dots> = of_nat (2 ^ (bit_length ?N - 1))" by simp
  also have "\<dots> \<le> of_nat ?N" using b by (intro of_nat_mono) simp
  also have "\<dots> = of_int \<lfloor>x\<rfloor>" using True by simp
  also have "\<dots> \<le> x" by simp
  finally have lower: "pow2 (ilog2 x) \<le> x" .
  have "x < of_int (\<lfloor>x\<rfloor> + 1)" by linarith
  also have "\<dots> = of_nat (?N + 1)" using True by simp
  also have "\<dots> \<le> of_nat (2 ^ bit_length ?N)"
    using b by (intro of_nat_mono) (metis Suc_eq_plus1 Suc_leI)
  also have "\<dots> = pow2 (ilog2 x + 1)" by (simp add: e pow2_def)
  finally show ?thesis using lower by simp
next
  case False
  with assms have x1: "x < 1" by simp
  let ?y = "1 / x"
  let ?K = "nat (\<lceil>?y\<rceil> - 1)"
  from assms x1 have y1: "1 < ?y" by simp
  then have c2: "2 \<le> \<lceil>?y\<rceil>" by linarith
  then have K: "0 < ?K" by simp
  from False have e: "ilog2 x = - int (bit_length ?K)" by (simp add: ilog2_def)
  from K have bl: "0 < bit_length ?K" by (rule bit_length_pos)
  note b = bit_length_bounds [OF K]
  have "?y \<le> of_int \<lceil>?y\<rceil>" by simp
  also have "\<dots> = of_nat (?K + 1)"
  proof -
    from c2 have "\<lceil>?y\<rceil> = int (?K + 1)" by linarith
    then show ?thesis by (metis of_int_of_nat_eq)
  qed
  also have "\<dots> \<le> of_nat (2 ^ bit_length ?K)"
    using b by (intro of_nat_mono) (metis Suc_eq_plus1 Suc_leI)
  finally have "?y \<le> 2 ^ bit_length ?K" by simp
  with assms have "1 / 2 ^ bit_length ?K \<le> x"
    by (simp add: field_simps)
  then have lower: "pow2 (ilog2 x) \<le> x" using bl by (simp add: e pow2_def)
  have "of_nat (2 ^ (bit_length ?K - 1)) \<le> (of_nat ?K :: rat)"
    using b by (intro of_nat_mono) simp
  also have "\<dots> = of_int (\<lceil>?y\<rceil> - 1)"
  proof -
    from c2 have "int ?K = \<lceil>?y\<rceil> - 1" by linarith
    then show ?thesis by (metis of_int_of_nat_eq)
  qed
  also have "\<dots> < ?y" by linarith
  finally have "2 ^ (bit_length ?K - 1) < ?y" by simp
  with assms have up: "x < 1 / 2 ^ (bit_length ?K - 1)"
    by (simp add: field_simps)
  have "pow2 (ilog2 x + 1) = 1 / 2 ^ (bit_length ?K - 1)"
  proof (cases "bit_length ?K = 1")
    case True
    then show ?thesis by (simp add: e pow2_def)
  next
    case False
    with bl have "1 < bit_length ?K" by simp
    then show ?thesis by (simp add: e pow2_def nat_diff_distrib)
  qed
  with up lower show ?thesis by simp
qed

lemma pow2_powi: "pow2 k = 2 powi k"
  by (simp add: pow2_def power_int_def inverse_eq_divide power_one_over)

lemma pow2_pos: "0 < pow2 k"
  by (simp add: pow2_powi)

lemma pow2_add: "pow2 (a + b) = pow2 a * pow2 b"
  by (simp add: pow2_powi power_int_add)

lemma pow2_mono: "a \<le> b \<Longrightarrow> pow2 a \<le> pow2 b"
  by (simp add: pow2_powi power_int_increasing)

lemma round_half_even_error: "\<bar>of_int (round_half_even y) - y\<bar> \<le> 1 / 2"
proof -
  define f where "f = \<lfloor>y\<rfloor>"
  have b: "of_int f \<le> y" "y < of_int f + 1" unfolding f_def by linarith+
  consider "y - of_int f < 1 / 2" | "1 / 2 < y - of_int f" | "y - of_int f = 1 / 2"
    by linarith
  then show ?thesis
  proof cases
    case 1
    then have "round_half_even y = f" by (simp add: round_half_even_def Let_def f_def)
    with 1 b show ?thesis by simp
  next
    case 2
    then have "round_half_even y = f + 1" by (simp add: round_half_even_def Let_def f_def)
    with 2 b show ?thesis by simp
  next
    case 3
    then have "round_half_even y = f \<or> round_half_even y = f + 1"
      by (simp add: round_half_even_def Let_def f_def)
    with 3 show ?thesis by auto
  qed
qed

lemma round_half_even_bound:
  assumes "\<bar>y\<bar> < of_int M"
  shows "\<bar>round_half_even y\<bar> \<le> M"
proof -
  from assms have "y < of_int M" "of_int (- M) < y" by (auto simp: abs_if split: if_splits)
  then have "\<lfloor>y\<rfloor> < M" "- M \<le> \<lfloor>y\<rfloor>" by (simp_all add: floor_less_iff le_floor_iff less_imp_le)
  then show ?thesis
    by (auto simp: round_half_even_def Let_def)
qed

lemma fl_double:
  assumes "x \<noteq> 0"
  defines "q \<equiv> max (ilog2 \<bar>x\<bar> - 52) (- 1074)"
  shows "fl x = of_int (round_half_even (x / pow2 q)) * pow2 q"
    and "\<bar>round_half_even (x / pow2 q)\<bar> \<le> 2 ^ 53"
    and "\<bar>fl x - x\<bar> \<le> pow2 q / 2"
proof -
  let ?m = "round_half_even (x / pow2 q)"
  show eq: "fl x = of_int ?m * pow2 q"
    using assms(1) by (simp add: fl_def Let_def q_def)
  from assms(1) have "0 < \<bar>x\<bar>" by simp
  from ilog2_bounds [OF this] have "\<bar>x\<bar> < pow2 (ilog2 \<bar>x\<bar> + 1)" by simp
  also have "\<dots> \<le> pow2 (q + 53)" by (rule pow2_mono) (simp add: q_def)
  also have "\<dots> = pow2 q * 2 ^ 53" by (simp add: pow2_add) (simp add: pow2_def)
  finally have "\<bar>x\<bar> / pow2 q < 2 ^ 53"
    using pow2_pos [of q] by (simp add: field_simps)
  moreover have "\<bar>pow2 q\<bar> = pow2 q"
    using pow2_pos [of q] by (rule abs_of_pos)
  ultimately have "\<bar>x / pow2 q\<bar> < of_int (2 ^ 53)" by (simp add: abs_divide)
  then show "\<bar>?m\<bar> \<le> 2 ^ 53" by (rule round_half_even_bound)
  have "fl x - x = (of_int ?m - x / pow2 q) * pow2 q"
    using pow2_pos [of q] by (simp add: eq field_simps)
  then have "\<bar>fl x - x\<bar> = \<bar>of_int ?m - x / pow2 q\<bar> * pow2 q"
    using pow2_pos [of q] by (simp add: abs_mult)
  also have "\<dots> \<le> (1 / 2) * pow2 q"
    using round_half_even_error [of "x / pow2 q"] pow2_pos [of q]
    by (intro mult_right_mono) simp_all
  finally show "\<bar>fl x - x\<bar> \<le> pow2 q / 2" by simp
qed

section \<open>The nearest points below and above, and the closest point\<close>

lemma first_Some_iff: "first xs = Some x \<longleftrightarrow> xs \<noteq> [] \<and> hd xs = x"
  by (cases xs) (simp_all add: first_def)

lemma first_None_iff: "first xs = None \<longleftrightarrow> xs = []"
  by (cases xs) (simp_all add: first_def)

lemma lowerPrice_None: "lowerPrice ap t = None \<longleftrightarrow> (\<forall>p\<in>set ap. \<not> nights p < t)"
proof -
  show ?thesis
    by (simp add: lowerPrice_def first_None_iff js_sort_Nil_iff filter_empty_conv)
qed

lemma lowerPrice_Some:
  assumes "lowerPrice ap t = Some lo"
  shows "lo \<in> set ap \<and> nights lo < t \<and> (\<forall>p\<in>set ap. nights p < t \<longrightarrow> nights p \<le> nights lo)"
proof -
  let ?xs = "filter (\<lambda>p. nights p < t) ap"
  have eq: "js_sort (\<lambda>a b. nights b - nights a) ?xs = sort_key (\<lambda>p. - nights p) ?xs"
    by (rule js_sort_sort_key) auto
  from assms have ne: "?xs \<noteq> []" and lo: "lo = hd (sort_key (\<lambda>p. - nights p) ?xs)"
    by (simp_all add: lowerPrice_def first_Some_iff js_sort_Nil_iff flip: eq)
  from hd_sort_key_min [OF ne, of "\<lambda>p. - nights p"] lo show ?thesis by auto
qed

lemma higherPrice_None: "higherPrice ap t = None \<longleftrightarrow> (\<forall>p\<in>set ap. \<not> t < nights p)"
proof -
  show ?thesis
    by (simp add: higherPrice_def first_None_iff js_sort_Nil_iff filter_empty_conv)
qed

lemma higherPrice_Some:
  assumes "higherPrice ap t = Some hi"
  shows "hi \<in> set ap \<and> t < nights hi \<and> (\<forall>p\<in>set ap. t < nights p \<longrightarrow> nights hi \<le> nights p)"
proof -
  let ?xs = "filter (\<lambda>p. nights p > t) ap"
  have eq: "js_sort (\<lambda>a b. nights a - nights b) ?xs = sort_key nights ?xs"
    by (rule js_sort_sort_key) auto
  from assms have ne: "?xs \<noteq> []" and hi: "hi = hd (sort_key nights ?xs)"
    by (simp_all add: higherPrice_def first_Some_iff js_sort_Nil_iff flip: eq)
  from hd_sort_key_min [OF ne, of nights] hi show ?thesis by auto
qed

lemma closest_min:
  assumes "ap \<noteq> []"
  shows "closest ap t \<in> set ap \<and> (\<forall>q\<in>set ap. \<bar>nights (closest ap t) - t\<bar> \<le> \<bar>nights q - t\<bar>)"
proof -
  have eq: "js_sort (\<lambda>a b. \<bar>nights a - t\<bar> - \<bar>nights b - t\<bar>) ap = sort_key (\<lambda>p. \<bar>nights p - t\<bar>) ap"
    by (rule js_sort_sort_key) auto
  from hd_sort_key_min [OF assms, of "\<lambda>p. \<bar>nights p - t\<bar>"] show ?thesis
    by (simp add: closest_def eq)
qed

section \<open>The collected rate table\<close>

lemma set_map_filter_iff: "y \<in> set (List.map_filter f xs) \<longleftrightarrow> (\<exists>x\<in>set xs. f x = Some y)"
  by (induction xs) (auto simp: List.map_filter_simps split: option.splits)

lemma availablePrices_mem:
  "p \<in> set (availablePrices l) \<longleftrightarrow>
     2 \<le> nights p \<and> nights p \<le> 7 \<and>
     valid_price (js_or (Price_nights_selected l (nights p)) (Nightly_Host_Rate_for_nights l (nights p))) = Some (price p)"
proof -
  have set27: "set [2, 3, 4, 5, 6, 7 :: int] = {n. 2 \<le> n \<and> n \<le> 7}"
    by auto
  have "p \<in> set (availablePrices l) \<longleftrightarrow>
     (\<exists>n. 2 \<le> n \<and> n \<le> 7 \<and> (case valid_price (js_or (Price_nights_selected l n) (Nightly_Host_Rate_for_nights l n)) of
               None \<Rightarrow> None
             | Some p \<Rightarrow> Some \<lparr>nights = n, price = p\<rparr>) = Some p)"
    unfolding availablePrices_def set_map_filter_iff set27 by blast
  also have "\<dots> \<longleftrightarrow> 2 \<le> nights p \<and> nights p \<le> 7 \<and>
     valid_price (js_or (Price_nights_selected l (nights p)) (Nightly_Host_Rate_for_nights l (nights p))) = Some (price p)"
    by (cases p) (auto split: option.splits)
  finally show ?thesis .
qed

lemma valid_price_pos: "valid_price v = Some p \<Longrightarrow> 0 < p"
  by (auto simp: valid_price_def parseFloat_def split: option.splits if_splits)

lemma availablePrices_pos: "p \<in> set (availablePrices l) \<Longrightarrow> 0 < price p"
  by (auto simp: availablePrices_mem dest: valid_price_pos)

lemma availablePrices_inj:
  "p \<in> set (availablePrices l) \<Longrightarrow> q \<in> set (availablePrices l) \<Longrightarrow> nights p = nights q \<Longrightarrow> p = q"
  by (cases p, cases q) (simp add: availablePrices_mem)

section \<open>The fields and the tests of the code\<close>

text \<open>
  The test \<^verbatim>\<open>price && price > 0\<close> of the code accepts exactly the fields that hold a rate.
\<close>

lemma valid_price_known: "valid_price v = known v"
  by (simp add: valid_price_def known_def parseFloat_def split: option.splits)

lemma known_None_iff: "known v = None \<longleftrightarrow> non_positive v"
  by (auto simp: known_def non_positive_def split: option.splits)

lemma no_exact_rate_iff:
  "no_exact_rate l n \<longleftrightarrow>
     non_positive (Price_nights_selected l n) \<and> non_positive (Nightly_Host_Rate_for_nights l n)"
  by (simp add: no_exact_rate_def valid_price_known known_None_iff)

lemma rate_None_iff:
  assumes "2 \<le> n" and "n \<le> 7"
  shows "rate l n = None \<longleftrightarrow> no_exact_rate l n"
  using assms by (auto simp: rate_def no_exact_rate_def valid_price_known split: option.splits)

lemma set_2_to_7: "set [2, 3, 4, 5, 6, 7 :: int] = {n. 2 \<le> n \<and> n \<le> 7}"
  by auto

text \<open>
  Where no plain field is negative in front of an emoji rate, the loop of
  \<open>interpolatePricing\<close> collects exactly the rate table.
\<close>

lemma collected_rate:
  assumes "\<not> shadowed l n" and "2 \<le> n" and "n \<le> 7"
  shows "valid_price (js_or (Price_nights_selected l n) (Nightly_Host_Rate_for_nights l n))
           = rate l n"
  using assms
  by (auto simp: shadowed_def rate_def valid_price_known known_def js_or_def truthy_def
      split: option.splits if_splits)

lemma unshadowedD:
  assumes "unshadowed l" and "2 \<le> n" and "n \<le> 7"
  shows "\<not> shadowed l n"
  using assms unfolding unshadowed_def list_all_iff set_2_to_7 by simp

lemma availablePrices_rate:
  assumes "unshadowed l"
  shows "p \<in> set (availablePrices l) \<longleftrightarrow> rate l (nights p) = Some (price p)"
proof (cases "2 \<le> nights p \<and> nights p \<le> 7")
  case True
  with collected_rate [OF unshadowedD [OF assms], of "nights p"] show ?thesis
    by (simp add: availablePrices_mem)
next
  case False
  then show ?thesis by (auto simp: availablePrices_mem rate_def)
qed

lemma map_nights_map_filter:
  "map nights (List.map_filter
       (\<lambda>n. case f n of None \<Rightarrow> None | Some p \<Rightarrow> Some \<lparr>nights = n, price = p\<rparr>) xs)
     = filter (\<lambda>n. f n \<noteq> None) xs"
  by (induction xs) (auto simp: List.map_filter_simps split: option.splits)

lemma known_nights_collected:
  assumes "unshadowed l"
  shows "map nights (availablePrices l) = known_nights l"
proof -
  have "filter (\<lambda>n. valid_price (js_or (Price_nights_selected l n)
                                          (Nightly_Host_Rate_for_nights l n)) \<noteq> None)
          [2, 3, 4, 5, 6, 7]
        = filter (\<lambda>n. rate l n \<noteq> None) [2, 3, 4, 5, 6, 7]"
  proof (rule filter_cong [OF refl])
    fix n :: int
    assume "n \<in> set [2, 3, 4, 5, 6, 7]"
    then have "2 \<le> n" "n \<le> 7" unfolding set_2_to_7 by simp_all
    with collected_rate [OF unshadowedD [OF assms]]
    show "(valid_price (js_or (Price_nights_selected l n) (Nightly_Host_Rate_for_nights l n))
            \<noteq> None) = (rate l n \<noteq> None)"
      by simp
  qed
  then show ?thesis
    unfolding availablePrices_def known_nights_def map_nights_map_filter .
qed

section \<open>The branches of calculateDynamicPrice and interpolatePricing\<close>

lemma calc_out_of_range:
  assumes "nightsCount d < 2 \<or> 7 < nightsCount d"
  shows "calculateDynamicPrice l d = startingPriceFallback l"
    and "calculateDynamicPrice_source l d = startingPriceFallback_source l"
  using assms by (auto simp: calculateDynamicPrice_def calculateDynamicPrice_source_def Let_def)

lemma calc_no_exact:
  assumes "2 \<le> nightsCount d" "nightsCount d \<le> 7" "no_exact_rate l (nightsCount d)"
  shows "calculateDynamicPrice l d =
           (if interpolatePricing l (nightsCount d) > 0 then interpolatePricing l (nightsCount d)
            else startingPriceFallback l)"
    and "calculateDynamicPrice_source l d =
           (case interpolatePricing_source l (nightsCount d) of
              Some s \<Rightarrow> if interpolatePricing l (nightsCount d) > 0 then s
                        else startingPriceFallback_source l
            | None \<Rightarrow> startingPriceFallback_source l)"
  using assms
  by (simp_all add: calculateDynamicPrice_def calculateDynamicPrice_source_def Let_def no_exact_rate_def)

lemma interpolate_too_few:
  assumes "length (availablePrices l) < 2"
  shows "interpolatePricing l n = 0" and "interpolatePricing_source l n = None"
  using assms by (simp_all add: interpolatePricing_def interpolatePricing_source_def)

lemma interpolate_bracket:
  assumes lo: "lowerPrice (availablePrices l) n = Some lo"
    and hi: "higherPrice (availablePrices l) n = Some hi"
  shows "interpolatePricing l n =
           fl (price lo
                 + fl (fl (of_int (n - nights lo) / of_int (nights hi - nights lo))
                         * fl (price hi - price lo)))"
    and "interpolatePricing_source l n = Some Interpolated"
proof -
  from lowerPrice_Some [OF lo] have l1: "lo \<in> set (availablePrices l)" "nights lo < n" by auto
  from higherPrice_Some [OF hi] have h1: "hi \<in> set (availablePrices l)" "n < nights hi" by auto
  have "lo \<noteq> hi" using l1 h1 by auto
  with l1 h1 have "card {lo, hi} \<le> card (set (availablePrices l))"
    by (intro card_mono) auto
  with \<open>lo \<noteq> hi\<close> have len: "\<not> length (availablePrices l) < 2"
    using card_length [of "availablePrices l"] by simp
  show "interpolatePricing l n =
           fl (price lo
                 + fl (fl (of_int (n - nights lo) / of_int (nights hi - nights lo))
                         * fl (price hi - price lo)))"
    using len lo hi by (simp add: interpolatePricing_def Let_def)
  show "interpolatePricing_source l n = Some Interpolated"
    using len lo hi by (simp add: interpolatePricing_source_def Let_def)
qed

lemma interpolate_closest:
  assumes len: "2 \<le> length (availablePrices l)"
    and side: "lowerPrice (availablePrices l) n = None \<or> higherPrice (availablePrices l) n = None"
  shows "interpolatePricing l n = price (closest (availablePrices l) n)"
    and "interpolatePricing_source l n = Some NearestNeighbor"
    and "0 < interpolatePricing l n"
proof -
  show eq: "interpolatePricing l n = price (closest (availablePrices l) n)"
    using len side by (auto simp: interpolatePricing_def Let_def split: option.splits)
  show "interpolatePricing_source l n = Some NearestNeighbor"
    using len side by (auto simp: interpolatePricing_source_def Let_def split: option.splits)
  from len have "availablePrices l \<noteq> []" by auto
  from closest_min [OF this] show "0 < interpolatePricing l n"
    unfolding eq by (auto dest: availablePrices_pos)
qed

text \<open>The definitions unfolded to evaluate the functions on a concrete listing.\<close>

lemmas eval_defs =
  calculateDynamicPrice_def calculateDynamicPrice_source_def sample_listing_def nightsCount_def
  valid_price_def interpolatePricing_def interpolatePricing_source_def availablePrices_def
  List.map_filter_def js_or_def truthy_def parseFloat_def or_number_def
  lowerPrice_def higherPrice_def closest_def first_def startingPriceFallback_def
  startingPriceFallback_source_def no_exact_rate_def Let_def

lemmas rate_defs =
  rate_def known_def non_positive_def known_nights_def shadowed_def unshadowed_def
  sample_listing_def sample_listing_both_def nightsCount_def

text \<open>
  The examples of linear interpolation computed in doubles: 300 at 3 nights and 500 at 5
  nights give 400 at 4 nights, 200 at 2 and 700 at 7 give 500 at 5, and 100 at 2 and 200
  at 5 give 133.33333333333331 at 3, which is not the rational 400 / 3.
\<close>

lemma interpolation_examples:
  "interpolatePricing (sample_listing [(3, 300), (5, 500)] None) 4 = 400"
  "interpolatePricing (sample_listing [(2, 200), (7, 700)] None) 5 = 500"
  "interpolatePricing (sample_listing [(2, 100), (3, 300), (5, 500), (7, 900)] None) 4 = 400"
  "interpolatePricing (sample_listing [(2, 100), (5, 200)] None) 3
     = 2345624805922133 / 17592186044416"
  by code_simp+

section \<open>Bracket interpolation\<close>

text \<open>
  C6. The claim requires the interpolation between the nearest known rates below and
  above the target. On the listing with the plain fields -1 at 3 nights, 500 at 5 nights
  and 700 at 7 nights and the emoji field 300 at 3 nights, the rate at 3 nights is 300:
  \<open>calculateDynamicPrice\<close> itself returns it for the target 3 (4 selected days). For the
  target 4 (5 selected days), with no rate at 4 nights, the claim gives the interpolation
  between 300 at 3 nights and 500 at 5 nights, which is 400. The code returns 500: the
  loop of \<open>interpolatePricing\<close> merges the two fields with \<^verbatim>\<open>||\<close> before it tests the value,
  so it collects only the points at 5 and 7 nights and takes the closest of them.
  Reading the rate table as that loop does gives no agreement either: with the plain
  fields 300 at 3 nights, -1 at 4 nights and 500 at 5 nights and the emoji field 450 at 4
  nights, the loop and \<open>getPriceForNights\<close> read no rate at 4 nights, between the rates at
  3 and 5 nights, and \<open>calculateDynamicPrice\<close> returns 450 for the target 4, not 400.
\<close>

theorem shadowed_rate_not_interpolated:
  "rate (sample_listing_both [(3, - 1), (5, 500), (7, 700)] [(3, 300)] None) 3 = Some 300
   \<and> rate (sample_listing_both [(3, - 1), (5, 500), (7, 700)] [(3, 300)] None) 4 = None
   \<and> rate (sample_listing_both [(3, - 1), (5, 500), (7, 700)] [(3, 300)] None) 5 = Some 500
   \<and> calculateDynamicPrice
         (sample_listing_both [(3, - 1), (5, 500), (7, 700)] [(3, 300)] None) 4 = 300
   \<and> map nights (availablePrices
         (sample_listing_both [(3, - 1), (5, 500), (7, 700)] [(3, 300)] None)) = [5, 7]
   \<and> nightsCount 5 = 4
   \<and> calculateDynamicPrice
         (sample_listing_both [(3, - 1), (5, 500), (7, 700)] [(3, 300)] None) 5 = 500
   \<and> calculateDynamicPrice_source
         (sample_listing_both [(3, - 1), (5, 500), (7, 700)] [(3, 300)] None) 5 = NearestNeighbor
   \<and> fl (300 + fl (fl (of_int (4 - 3) / of_int (5 - 3)) * fl (500 - 300))) = 400
   \<and> map nights (availablePrices
         (sample_listing_both [(3, 300), (4, - 1), (5, 500)] [(4, 450)] None)) = [3, 5]
   \<and> getPriceForNights
         (sample_listing_both [(3, 300), (4, - 1), (5, 500)] [(4, 450)] None) 4 = 0
   \<and> calculateDynamicPrice
         (sample_listing_both [(3, 300), (4, - 1), (5, 500)] [(4, 450)] None) 5 = 450"
proof -
  have "fl (300 + fl (fl (of_int (4 - 3) / of_int (5 - 3)) * fl (500 - 300))) = 400"
    by code_simp
  then show ?thesis
    by (simp add: eval_defs rate_defs getPriceForNights_def)
qed

section \<open>The closest available rate\<close>

text \<open>
  The branch of \<open>interpolatePricing\<close> that returns the closest collected point, and the
  branch that returns 0 when fewer than two points were collected.
\<close>

lemma closest_of_collected:
  assumes ne: "no_exact_rate l (nightsCount d)"
    and r: "2 \<le> nightsCount d" "nightsCount d \<le> 7"
    and len: "2 \<le> length (availablePrices l)"
    and side: "(\<forall>p\<in>set (availablePrices l). nights p < nightsCount d)
               \<or> (\<forall>p\<in>set (availablePrices l). nightsCount d < nights p)"
    and c: "c \<in> set (availablePrices l)"
    and cmin: "\<forall>q\<in>set (availablePrices l).
                 \<bar>nights c - nightsCount d\<bar> \<le> \<bar>nights q - nightsCount d\<bar>"
  shows "calculateDynamicPrice l d = price c"
    and "calculateDynamicPrice_source l d = NearestNeighbor"
proof -
  let ?n = "nightsCount d" and ?ap = "availablePrices l"
  note calc = calc_no_exact [OF r ne]
  from side have side': "lowerPrice ?ap ?n = None \<or> higherPrice ?ap ?n = None"
    by (auto simp: lowerPrice_None higherPrice_None)
  from len have nonempty: "?ap \<noteq> []" by auto
  let ?k = "closest ?ap ?n"
  from closest_min [OF nonempty, of ?n]
  have k: "?k \<in> set ?ap" and kmin: "\<forall>q\<in>set ?ap. \<bar>nights ?k - ?n\<bar> \<le> \<bar>nights q - ?n\<bar>"
    by simp_all
  from kmin c cmin k have "\<bar>nights ?k - ?n\<bar> = \<bar>nights c - ?n\<bar>" by force
  moreover from side c k
  have "(nights ?k < ?n \<and> nights c < ?n) \<or> (?n < nights ?k \<and> ?n < nights c)" by blast
  ultimately have "nights ?k = nights c" by arith
  with c k have kc: "?k = c" by (auto intro: availablePrices_inj)
  note ip = interpolate_closest [OF len side', unfolded kc]
  from calc(1) ip show "calculateDynamicPrice l d = price c" by simp
  from calc(2) ip show "calculateDynamicPrice_source l d = NearestNeighbor" by simp
qed

lemma too_few_collected:
  assumes ne: "no_exact_rate l (nightsCount d)"
    and r: "2 \<le> nightsCount d" "nightsCount d \<le> 7"
    and len: "length (availablePrices l) < 2"
  shows "calculateDynamicPrice l d = startingPriceFallback l"
    and "calculateDynamicPrice_source l d = startingPriceFallback_source l"
  using interpolate_too_few [OF len, of "nightsCount d"] calc_no_exact [OF r ne]
  by simp_all

text \<open>
  C1, as amended. Take a listing in which no night count has a negative plain field in
  front of an emoji field that holds a rate, and a target night count \<open>n\<close> between 2 and
  7 that has no rate (both fields at \<open>n\<close> absent, zero or negative). If at least two night
  counts have a rate and all of them lie strictly on one side of \<open>n\<close>,
  \<open>calculateDynamicPrice\<close> returns the rate of the night count closest to \<open>n\<close>, from the
  closest-point return statement. If fewer than two night counts have a rate, the single
  rate is not used: the result is the starting-price fallback.
\<close>

theorem nearest_neighbor_two_points:
  assumes "unshadowed l"
    and "2 \<le> nightsCount d" and "nightsCount d \<le> 7"
    and "rate l (nightsCount d) = None"
  shows "(2 \<le> length (known_nights l)
          \<and> ((\<forall>m\<in>set (known_nights l). m < nightsCount d)
               \<or> (\<forall>m\<in>set (known_nights l). nightsCount d < m))
          \<and> rate l c = Some r
          \<and> (\<forall>m\<in>set (known_nights l). \<bar>c - nightsCount d\<bar> \<le> \<bar>m - nightsCount d\<bar>)
          \<longrightarrow> calculateDynamicPrice l d = r
              \<and> calculateDynamicPrice_source l d = NearestNeighbor)
       \<and> (length (known_nights l) < 2
          \<longrightarrow> calculateDynamicPrice l d = startingPriceFallback l
              \<and> calculateDynamicPrice_source l d = startingPriceFallback_source l)"
proof (intro conjI impI)
  let ?n = "nightsCount d" and ?ap = "availablePrices l"
  from assms(2-4) have ne: "no_exact_rate l ?n" by (simp add: rate_None_iff)
  note kn = known_nights_collected [OF assms(1)]
  have len: "length ?ap = length (known_nights l)"
    using kn by (metis length_map)
  have nights_mem: "nights p \<in> set (known_nights l)" if "p \<in> set ?ap" for p
    using that kn by (metis image_eqI set_map)
  {
    assume "length (known_nights l) < 2"
    then have "length ?ap < 2" by (simp add: len)
    from too_few_collected [OF ne assms(2,3) this]
    show "calculateDynamicPrice l d = startingPriceFallback l"
      and "calculateDynamicPrice_source l d = startingPriceFallback_source l"
      by simp_all
  }
  assume h: "2 \<le> length (known_nights l)
          \<and> ((\<forall>m\<in>set (known_nights l). m < ?n) \<or> (\<forall>m\<in>set (known_nights l). ?n < m))
          \<and> rate l c = Some r
          \<and> (\<forall>m\<in>set (known_nights l). \<bar>c - ?n\<bar> \<le> \<bar>m - ?n\<bar>)"
  let ?c = "\<lparr>nights = c, price = r\<rparr>"
  from h have l2: "2 \<le> length ?ap" by (simp add: len)
  from h have c: "?c \<in> set ?ap" by (simp add: availablePrices_rate [OF assms(1)])
  from h nights_mem
  have side: "(\<forall>p\<in>set ?ap. nights p < ?n) \<or> (\<forall>p\<in>set ?ap. ?n < nights p)"
    by blast
  from h nights_mem
  have cmin: "\<forall>q\<in>set ?ap. \<bar>nights ?c - ?n\<bar> \<le> \<bar>nights q - ?n\<bar>"
    by simp
  from closest_of_collected [OF ne assms(2,3) l2 side c cmin]
  show "calculateDynamicPrice l d = r"
    and "calculateDynamicPrice_source l d = NearestNeighbor"
    by simp_all
qed

text \<open>
  With rates at 2 and 3 nights, a negative value at 5 nights and target 5, the rate at 3
  nights is returned; with the rate at 2 nights alone the starting price 150 is returned.
\<close>

theorem nearest_neighbor_two_points_witness:
  "calculateDynamicPrice (sample_listing [(2, 200), (3, 300), (5, - 5)] (Some 150)) 6 = 300
   \<and> calculateDynamicPrice_source (sample_listing [(2, 200), (3, 300), (5, - 5)] (Some 150)) 6
       = NearestNeighbor
   \<and> calculateDynamicPrice (sample_listing [(2, 200)] (Some 150)) 6 = 150
   \<and> calculateDynamicPrice_source (sample_listing [(2, 200)] (Some 150)) 6 = StartingPriceFallback"
proof -
  have u: "unshadowed (sample_listing rs s)" for rs s
    by (simp add: unshadowed_def shadowed_def known_def sample_listing_def split: option.splits)
  have n: "2 \<le> nightsCount 6" "nightsCount 6 \<le> 7" by (simp_all add: nightsCount_def)
  have a: "rate (sample_listing [(2, 200), (3, 300), (5, - 5)] (Some 150)) (nightsCount 6) = None"
    "known_nights (sample_listing [(2, 200), (3, 300), (5, - 5)] (Some 150)) = [2, 3]"
    "rate (sample_listing [(2, 200), (3, 300), (5, - 5)] (Some 150)) 3 = Some 300"
    by (simp_all add: rate_defs)
  have b: "rate (sample_listing [(2, 200)] (Some 150)) (nightsCount 6) = None"
    "known_nights (sample_listing [(2, 200)] (Some 150)) = [2]"
    by (simp_all add: rate_defs)
  have f: "startingPriceFallback (sample_listing rs (Some 150)) = 150"
    "startingPriceFallback_source (sample_listing rs (Some 150)) = StartingPriceFallback" for rs
    by (simp_all add: eval_defs)
  from nearest_neighbor_two_points [OF u n a(1), of 3 300]
  have 1: "calculateDynamicPrice (sample_listing [(2, 200), (3, 300), (5, - 5)] (Some 150)) 6 = 300
   \<and> calculateDynamicPrice_source (sample_listing [(2, 200), (3, 300), (5, - 5)] (Some 150)) 6
       = NearestNeighbor"
    by (simp add: a nightsCount_def)
  from nearest_neighbor_two_points [OF u n b(1)]
  have 2: "calculateDynamicPrice (sample_listing [(2, 200)] (Some 150)) 6 = 150
   \<and> calculateDynamicPrice_source (sample_listing [(2, 200)] (Some 150)) 6 = StartingPriceFallback"
    by (simp add: b f)
  from 1 2 show ?thesis by simp
qed

text \<open>
  C1 as stated fails on its own example: given only the rate 200 at 2 nights and target 5
  (6 selected days), the result is 0 from the final return statement, not 200.
\<close>

theorem nearest_neighbor_counterexample:
  "availablePrices (sample_listing [(2, 200)] None) = [\<lparr>nights = 2, price = 200\<rparr>]
   \<and> nightsCount 6 = 5
   \<and> calculateDynamicPrice (sample_listing [(2, 200)] None) 6 = 0
   \<and> calculateDynamicPrice (sample_listing [(2, 200)] None) 6 \<noteq> 200
   \<and> calculateDynamicPrice_source (sample_listing [(2, 200)] None) 6 = Unavailable"
  by (simp add: eval_defs)

section \<open>Night counts outside 2 to 7\<close>

text \<open>
  C3, as amended. For every target night count below 2 or above 7,
  \<open>calculateDynamicPrice\<close> skips the exact lookup, the interpolation and the closest
  point: it returns the starting-price fallback, and the result does not depend on the
  rate fields.
\<close>

theorem out_of_range_starting_price:
  assumes "nightsCount d < 2 \<or> 7 < nightsCount d"
  shows "calculateDynamicPrice l d = startingPriceFallback l
       \<and> calculateDynamicPrice_source l d = startingPriceFallback_source l
       \<and> calculateDynamicPrice
            (l\<lparr>Price_nights_selected := P', Nightly_Host_Rate_for_nights := E'\<rparr>) d
           = calculateDynamicPrice l d"
  using assms
  by (auto simp: calculateDynamicPrice_def calculateDynamicPrice_source_def Let_def
      startingPriceFallback_def)

text \<open>Targets 8 and 1 with rates at 2 and 7 nights.\<close>

theorem out_of_range_starting_price_witness:
  "nightsCount 9 = 8
   \<and> calculateDynamicPrice (sample_listing [(2, 200), (7, 700)] (Some 150)) 9 = 150
   \<and> calculateDynamicPrice_source (sample_listing [(2, 200), (7, 700)] (Some 150)) 9
        = StartingPriceFallback
   \<and> nightsCount 2 = 1
   \<and> calculateDynamicPrice (sample_listing [(2, 200), (7, 700)] None) 2 = 0"
proof -
  have n: "nightsCount 9 = 8" "nightsCount 2 = 1" by (simp_all add: nightsCount_def)
  have f: "startingPriceFallback (sample_listing rs (Some 150)) = 150"
    "startingPriceFallback_source (sample_listing rs (Some 150)) = StartingPriceFallback"
    "startingPriceFallback (sample_listing rs None) = 0" for rs
    by (simp_all add: eval_defs)
  from out_of_range_starting_price [of 9 "sample_listing [(2, 200), (7, 700)] (Some 150)"]
    out_of_range_starting_price [of 2 "sample_listing [(2, 200), (7, 700)] None"]
  show ?thesis by (simp add: n f)
qed

text \<open>
  C3 as stated fails on its own example: with rates 200 at 2 nights and 700 at 7 nights,
  starting price 150 and target 8 (9 selected days), the closest known rate is 700 but
  the starting price 150 is returned.
\<close>

theorem out_of_range_counterexample:
  "availablePrices (sample_listing [(2, 200), (7, 700)] (Some 150))
     = [\<lparr>nights = 2, price = 200\<rparr>, \<lparr>nights = 7, price = 700\<rparr>]
   \<and> nightsCount 9 = 8
   \<and> price (closest (availablePrices (sample_listing [(2, 200), (7, 700)] (Some 150))) 8) = 700
   \<and> calculateDynamicPrice (sample_listing [(2, 200), (7, 700)] (Some 150)) 9 = 150
   \<and> calculateDynamicPrice_source (sample_listing [(2, 200), (7, 700)] (Some 150)) 9
        = StartingPriceFallback"
  by (simp add: eval_defs)

section \<open>Non-positive night counts\<close>

text \<open>
  C2, as amended. For every selected day count whose night count \<open>d - 1\<close> is not positive,
  \<open>calculateDynamicPrice\<close> reports no error: the night count is clamped to 1, the result is
  the one for a single night (2 selected days), and that is the starting-price fallback.
\<close>

theorem non_positive_nights_clamped:
  assumes "d - 1 \<le> 0"
  shows "nightsCount d = 1
       \<and> calculateDynamicPrice l d = calculateDynamicPrice l 2
       \<and> calculateDynamicPrice l d = startingPriceFallback l
       \<and> calculateDynamicPrice_source l d = startingPriceFallback_source l"
  using assms
  by (simp add: calculateDynamicPrice_def calculateDynamicPrice_source_def nightsCount_def)

text \<open>Zero selected days, target night count -1.\<close>

theorem non_positive_nights_clamped_witness:
  "(0::int) - 1 \<le> 0
   \<and> calculateDynamicPrice (sample_listing [(2, 200), (3, 300)] (Some 150)) 0 = 150
   \<and> calculateDynamicPrice_source (sample_listing [(2, 200), (3, 300)] (Some 150)) 0
        = StartingPriceFallback"
proof -
  have f: "startingPriceFallback (sample_listing rs (Some 150)) = 150"
    "startingPriceFallback_source (sample_listing rs (Some 150)) = StartingPriceFallback" for rs
    by (simp_all add: eval_defs)
  from non_positive_nights_clamped [of 0 "sample_listing [(2, 200), (3, 300)] (Some 150)"]
  show ?thesis by (simp add: f)
qed

text \<open>
  C2 as stated fails: for -2 selected days (target night count -3) the function silently
  uses the night count 1 and returns the price 150, the same as for 2 selected days.
\<close>

theorem non_positive_nights_counterexample:
  "nightsCount (- 2) = 1
   \<and> calculateDynamicPrice (sample_listing [(2, 200), (3, 300)] (Some 150)) (- 2) = 150
   \<and> calculateDynamicPrice (sample_listing [(2, 200), (3, 300)] (Some 150)) (- 2)
       = calculateDynamicPrice (sample_listing [(2, 200), (3, 300)] (Some 150)) 2
   \<and> calculateDynamicPrice_source (sample_listing [(2, 200), (3, 300)] (Some 150)) (- 2)
       = StartingPriceFallback"
  by (simp add: eval_defs)

section \<open>The starting-price fallback\<close>

text \<open>
  C5. The claim requires a result of at least 0 for every input. On a listing with no
  rate at all and the starting price -5, \<open>calculateDynamicPrice\<close> returns -5 from the
  starting-price return statement: the fallback tests the starting price for truthiness
  only, where every rate field is tested with \<^verbatim>\<open>price > 0\<close>.
\<close>

theorem negative_starting_price_returned:
  "availablePrices (sample_listing [] (Some (- 5))) = []
   \<and> calculateDynamicPrice (sample_listing [] (Some (- 5))) 4 = - 5
   \<and> calculateDynamicPrice (sample_listing [] (Some (- 5))) 4 < 0
   \<and> calculateDynamicPrice_source (sample_listing [] (Some (- 5))) 4 = StartingPriceFallback"
  by (simp add: eval_defs)

section \<open>A rate of zero or below counts as missing\<close>

lemma availablePrices_erase:
  assumes "no_exact_rate l n"
  shows "availablePrices (erase_rate l n) = availablePrices l"
proof -
  have "(\<lambda>m. valid_price (js_or (Price_nights_selected (erase_rate l n) m)
                                  (Nightly_Host_Rate_for_nights (erase_rate l n) m)))
      = (\<lambda>m. valid_price (js_or (Price_nights_selected l m) (Nightly_Host_Rate_for_nights l m)))"
    using assms
    by (auto simp: fun_eq_iff erase_rate_def no_exact_rate_def valid_price_def js_or_def truthy_def
        split: option.splits if_splits)
  then show ?thesis unfolding availablePrices_def by metis
qed

lemma unread_rate_erased:
  assumes "no_exact_rate l (nightsCount d)"
  shows "calculateDynamicPrice_source l d \<noteq> Exact
       \<and> calculateDynamicPrice l d = calculateDynamicPrice (erase_rate l (nightsCount d)) d
       \<and> calculateDynamicPrice_source l d
           = calculateDynamicPrice_source (erase_rate l (nightsCount d)) d"
proof -
  let ?n = "nightsCount d" and ?l' = "erase_rate l (nightsCount d)"
  have ap: "availablePrices ?l' = availablePrices l"
    by (rule availablePrices_erase [OF assms])
  have ip: "interpolatePricing ?l' m = interpolatePricing l m"
    "interpolatePricing_source ?l' m = interpolatePricing_source l m" for m
    by (simp_all add: interpolatePricing_def interpolatePricing_source_def ap)
  have fb: "startingPriceFallback ?l' = startingPriceFallback l"
    "startingPriceFallback_source ?l' = startingPriceFallback_source l"
    by (simp_all add: startingPriceFallback_def startingPriceFallback_source_def erase_rate_def)
  have ne': "no_exact_rate ?l' ?n"
    by (simp add: no_exact_rate_def erase_rate_def valid_price_def)
  have fs: "startingPriceFallback_source l \<noteq> Exact"
    by (simp add: startingPriceFallback_source_def Let_def)
  have isrc: "interpolatePricing_source l ?n \<noteq> Some Exact"
    by (simp add: interpolatePricing_source_def Let_def split: option.splits)
  show ?thesis
  proof (cases "2 \<le> ?n \<and> ?n \<le> 7")
    case True
    then have r: "2 \<le> ?n" "?n \<le> 7" by simp_all
    from calc_no_exact [OF r assms] calc_no_exact [OF r ne'] fs isrc show ?thesis
      by (auto simp: ip fb split: option.splits)
  next
    case False
    then have "?n < 2 \<or> 7 < ?n" by auto
    from calc_out_of_range [OF this] fs show ?thesis
      by (simp add: fb)
  qed
qed

text \<open>
  C7. If at the target night count both rate fields are absent, zero or negative,
  \<open>calculateDynamicPrice\<close> never returns from an exact lookup, and both its result and the
  return statement that produces it are those of the listing with that entry removed.
\<close>

theorem zero_rate_as_missing:
  assumes "non_positive (Price_nights_selected l (nightsCount d))"
    and "non_positive (Nightly_Host_Rate_for_nights l (nightsCount d))"
  shows "calculateDynamicPrice_source l d \<noteq> Exact
       \<and> calculateDynamicPrice l d = calculateDynamicPrice (erase_rate l (nightsCount d)) d
       \<and> calculateDynamicPrice_source l d
           = calculateDynamicPrice_source (erase_rate l (nightsCount d)) d"
  using assms by (intro unread_rate_erased) (simp add: no_exact_rate_iff)

text \<open>
  A rate of 0 at 4 nights between 300 at 3 nights and 500 at 5 nights is read as missing
  and the interpolation 400 is returned; a rate of -5 at 5 nights above 200 at 2 nights
  and 300 at 3 nights is read as missing and the closest rate 300 is returned.
\<close>

theorem zero_rate_as_missing_witness:
  "calculateDynamicPrice_source (sample_listing [(3, 300), (4, 0), (5, 500)] (Some 150)) 5 \<noteq> Exact
   \<and> calculateDynamicPrice (sample_listing [(3, 300), (4, 0), (5, 500)] (Some 150)) 5 = 400
   \<and> calculateDynamicPrice_source (sample_listing [(2, 200), (3, 300), (5, - 5)] (Some 150)) 6
       \<noteq> Exact
   \<and> calculateDynamicPrice (sample_listing [(2, 200), (3, 300), (5, - 5)] (Some 150)) 6 = 300"
proof -
  have n: "nightsCount 5 = 4" "nightsCount 6 = 5" by (simp_all add: nightsCount_def)
  have h0: "non_positive (Price_nights_selected
               (sample_listing [(3, 300), (4, 0), (5, 500)] (Some 150)) (nightsCount 5))"
    "non_positive (Nightly_Host_Rate_for_nights
               (sample_listing [(3, 300), (4, 0), (5, 500)] (Some 150)) (nightsCount 5))"
    by (simp_all add: non_positive_def sample_listing_def n)
  have h5: "non_positive (Price_nights_selected
               (sample_listing [(2, 200), (3, 300), (5, - 5)] (Some 150)) (nightsCount 6))"
    "non_positive (Nightly_Host_Rate_for_nights
               (sample_listing [(2, 200), (3, 300), (5, - 5)] (Some 150)) (nightsCount 6))"
    by (simp_all add: non_positive_def sample_listing_def n)
  have e0: "calculateDynamicPrice
             (erase_rate (sample_listing [(3, 300), (4, 0), (5, 500)] (Some 150)) 4) 5 = 400"
    by code_simp
  have e5: "calculateDynamicPrice
             (erase_rate (sample_listing [(2, 200), (3, 300), (5, - 5)] (Some 150)) 5) 6 = 300"
    by (simp add: eval_defs erase_rate_def)
  from zero_rate_as_missing [OF h0]
  have 1: "calculateDynamicPrice_source (sample_listing [(3, 300), (4, 0), (5, 500)] (Some 150)) 5
             \<noteq> Exact"
    and 2: "calculateDynamicPrice (sample_listing [(3, 300), (4, 0), (5, 500)] (Some 150)) 5
             = calculateDynamicPrice
                 (erase_rate (sample_listing [(3, 300), (4, 0), (5, 500)] (Some 150)) (nightsCount 5)) 5"
    by blast+
  from zero_rate_as_missing [OF h5]
  have 3: "calculateDynamicPrice_source (sample_listing [(2, 200), (3, 300), (5, - 5)] (Some 150)) 6
             \<noteq> Exact"
    and 4: "calculateDynamicPrice (sample_listing [(2, 200), (3, 300), (5, - 5)] (Some 150)) 6
             = calculateDynamicPrice
                 (erase_rate (sample_listing [(2, 200), (3, 300), (5, - 5)] (Some 150)) (nightsCount 6)) 6"
    by blast+
  from 1 2 3 4 e0 e5 show ?thesis by (simp add: n)
qed

section \<open>Properties of getPriceForNights\<close>

text \<open>
  C10. For a night count \<open>n\<close> from 2 to 7 whose two rate fields are each absent, zero or
  negative, \<open>getPriceForNights\<close> returns 0 whatever the other rates and the starting price
  are: it neither interpolates nor falls back. For \<open>n\<close> outside 2 to 7 it returns the raw
  starting-price field (\<^verbatim>\<open>'Starting nightly price'\<close>, else \<^verbatim>\<open>price.starting\<close>, else 0),
  and the result does not depend on the rate fields.
\<close>

theorem getPriceForNights_no_fallback:
  "(2 \<le> n \<and> n \<le> 7 \<and> non_positive (Price_nights_selected l n)
      \<and> non_positive (Nightly_Host_Rate_for_nights l n)
      \<longrightarrow> getPriceForNights l n = 0)
   \<and> (n < 2 \<or> 7 < n \<longrightarrow>
        getPriceForNights l n
          = or_number (js_or (Starting_nightly_price l) (price_starting l)) 0
        \<and> getPriceForNights (l\<lparr>Price_nights_selected := P', Nightly_Host_Rate_for_nights := E'\<rparr>) n
          = getPriceForNights l n
        \<and> (Starting_nightly_price l = None \<and> price_starting l = None
             \<longrightarrow> getPriceForNights l n = 0))"
  by (auto simp: getPriceForNights_def valid_price_def non_positive_def js_or_def truthy_def
      or_number_def split: option.splits if_splits)

text \<open>
  The rate 0 at 4 nights, the rate -5 at 5 nights and no field at 6 nights, each with
  other rates and a starting price present; night counts 8 and 1 with and without a
  starting price.
\<close>

theorem getPriceForNights_no_fallback_witness:
  "getPriceForNights (sample_listing [(3, 300), (4, 0), (5, 500)] (Some 150)) 4 = 0
   \<and> getPriceForNights (sample_listing [(2, 200), (3, 300), (5, - 5)] (Some 150)) 5 = 0
   \<and> getPriceForNights (sample_listing [(3, 300), (5, 500)] (Some 150)) 6 = 0
   \<and> getPriceForNights (sample_listing [(2, 200), (7, 700)] (Some 150)) 8 = 150
   \<and> getPriceForNights (sample_listing [(2, 200), (7, 700)] None) 1 = 0"
proof -
  have v: "Price_nights_selected (sample_listing rs s) = map_of rs"
    "Nightly_Host_Rate_for_nights (sample_listing rs s) = (\<lambda>_. None)"
    "Starting_nightly_price (sample_listing rs s) = s"
    "price_starting (sample_listing rs s) = None" for rs s
    by (simp_all add: sample_listing_def)
  from getPriceForNights_no_fallback [of 4 "sample_listing [(3, 300), (4, 0), (5, 500)] (Some 150)"]
    getPriceForNights_no_fallback [of 5 "sample_listing [(2, 200), (3, 300), (5, - 5)] (Some 150)"]
    getPriceForNights_no_fallback [of 6 "sample_listing [(3, 300), (5, 500)] (Some 150)"]
    getPriceForNights_no_fallback [of 8 "sample_listing [(2, 200), (7, 700)] (Some 150)"]
    getPriceForNights_no_fallback [of 1 "sample_listing [(2, 200), (7, 700)] None"]
  show ?thesis
    by (simp add: v non_positive_def js_or_def truthy_def or_number_def)
qed

section \<open>The steps of parseAmenities\<close>

lemma parseAmenities_eq:
  "parseAmenities api iu ib
     = js_sort priority_cmp (map (toAmenity iu) (fetchAmenityDetails api (iu @ ib)))"
  by (simp add: parseAmenities_def fetchAmenityDetails_def Let_def)

lemma toAmenity_fields:
  "id_a (toAmenity iu r) = id_r r"
  "name_a (toAmenity iu r) = Name r"
  "category_a (toAmenity iu r) = (if id_r r \<in> set iu then InUnit else InBuilding)"
  by (simp_all add: toAmenity_def Let_def)

lemma toAmenity_priority:
  "priority_a (toAmenity iu r) = (if inherited_name (Name r) then None else Some (name_rank (Name r)))"
  by (simp add: toAmenity_def Let_def inherited_name_def name_rank_def get_property_def
      split: option.splits)

lemma table_priority_below_999:
  assumes "map_of AMENITY_PRIORITY_MAP key = Some info"
  shows "priority info < 999"
proof -
  from assms have "(key, info) \<in> set AMENITY_PRIORITY_MAP" by (rule map_of_SomeD)
  then show ?thesis unfolding AMENITY_PRIORITY_MAP_def by auto
qed

lemma parseAmenities_sort_key:
  assumes "\<forall>r\<in>set (fetchAmenityDetails api (iu @ ib)). \<not> inherited_name (Name r)"
  shows "parseAmenities api iu ib
     = sort_key (\<lambda>a. name_rank (name_a a)) (map (toAmenity iu) (fetchAmenityDetails api (iu @ ib)))"
  unfolding parseAmenities_eq
proof (rule js_sort_sort_key)
  fix a b
  assume "a \<in> set (map (toAmenity iu) (fetchAmenityDetails api (iu @ ib)))"
    and "b \<in> set (map (toAmenity iu) (fetchAmenityDetails api (iu @ ib)))"
  with assms have "priority_a a = Some (name_rank (name_a a))"
    and "priority_a b = Some (name_rank (name_a b))"
    by (auto simp: toAmenity_priority toAmenity_fields)
  then show "(priority_cmp a b \<le> 0) = (name_rank (name_a a) \<le> name_rank (name_a b))"
    by (simp add: priority_cmp_def)
qed

section \<open>Ranks of the names used in the examples\<close>

lemma name_rank_examples:
  "name_rank (Some ''WiFi'') = 1"
  "name_rank (Some ''Closet'') = 12"
  "name_rank (Some ''Unknown-X'') = 999"
  "name_rank (Some '' WiFi'') = 999"
  by (simp_all add: name_rank_def toLowerCase_def AMENITY_PRIORITY_MAP_def)

lemma inherited_name_examples:
  "\<not> inherited_name (Some ''WiFi'')"
  "\<not> inherited_name (Some ''Closet'')"
  "\<not> inherited_name (Some ''Unknown-X'')"
  "\<not> inherited_name (Some '' WiFi'')"
  by (simp_all add: inherited_name_def get_property_def toLowerCase_def AMENITY_PRIORITY_MAP_def
      Object_prototype_keys_def)

lemma spec_rank_examples:
  "spec_rank '' WiFi'' = Some 1"
  "spec_rank ''Closet'' = Some 12"
  by (simp_all add: spec_rank_def trim_def is_space_def toLowerCase_def AMENITY_PRIORITY_MAP_def)

lemma sorted_three_names:
  assumes ms: "mset ns = {#Some ''Closet'', Some ''WiFi'', Some ''Unknown-X''#}"
    and srt: "sorted (map name_rank ns)"
  shows "ns = [Some ''WiFi'', Some ''Closet'', Some ''Unknown-X'']"
proof -
  let ?w = "Some ''WiFi''" and ?c = "Some ''Closet''" and ?u = "Some ''Unknown-X''"
  from ms have "image_mset name_rank (mset ns) = image_mset name_rank {#?c, ?w, ?u#}"
    by simp
  then have "mset (map name_rank ns) = mset [12, 1, 999]"
    by (simp add: name_rank_examples)
  then have "mset (map name_rank ns) = mset [1, 12, 999]"
    by (simp add: add_mset_commute)
  moreover have "sorted [1, 12, 999 :: int]" by simp
  ultimately have ranks: "map name_rank ns = [1, 12, 999]"
    using srt by (metis properties_for_sort)
  then obtain x y z where ns: "ns = [x, y, z]"
    by (auto simp: map_eq_Cons_conv)
  from ms have "set ns = {?c, ?w, ?u}"
    by (metis mset.simps(1) mset.simps(2) set_mset_mset list.set(1) list.set(2))
  with ns have mem: "x \<in> {?c, ?w, ?u}" "y \<in> {?c, ?w, ?u}" "z \<in> {?c, ?w, ?u}" by auto
  from ranks ns have r: "name_rank x = 1" "name_rank y = 12" "name_rank z = 999" by simp_all
  from mem(1) r(1) have "x = ?w" by (auto simp: name_rank_examples)
  moreover from mem(2) r(2) have "y = ?c" by (auto simp: name_rank_examples)
  moreover from mem(3) r(3) have "z = ?u" by (auto simp: name_rank_examples)
  ultimately show ?thesis using ns by simp
qed

section \<open>Ranking of amenities\<close>

text \<open>
  C8, as amended. Provided no display name lower-cases to a property name inherited
  from \<^verbatim>\<open>Object.prototype\<close>, every entry of the output of \<open>parseAmenities\<close> has as
  priority the rank of its name: the priority the table gives the lower-cased, untrimmed
  name, or else 999, which is above every priority of the table. The output is in
  ascending order of rank, and entries of equal rank keep the relative order of the
  records returned by the lookup. In particular records named Closet, WiFi and Unknown-X,
  in any order, come out as WiFi, Closet, Unknown-X.
\<close>

theorem ranking_by_lowercase_name:
  assumes "\<forall>r\<in>set (fetchAmenityDetails api (iu @ ib)). \<not> inherited_name (Name r)"
  shows "(\<forall>a\<in>set (parseAmenities api iu ib). priority_a a = Some (name_rank (name_a a)))
       \<and> sorted (map (\<lambda>a. name_rank (name_a a)) (parseAmenities api iu ib))
       \<and> (\<forall>k. filter (\<lambda>a. name_rank (name_a a) = k) (parseAmenities api iu ib)
               = filter (\<lambda>a. name_rank (name_a a) = k)
                   (map (toAmenity iu) (fetchAmenityDetails api (iu @ ib))))
       \<and> (\<forall>key info. map_of AMENITY_PRIORITY_MAP key = Some info \<longrightarrow> priority info < 999)
       \<and> (mset (map Name (fetchAmenityDetails api (iu @ ib)))
            = {#Some ''Closet'', Some ''WiFi'', Some ''Unknown-X''#}
          \<longrightarrow> map name_a (parseAmenities api iu ib)
                = [Some ''WiFi'', Some ''Closet'', Some ''Unknown-X''])"
proof -
  let ?rows = "fetchAmenityDetails api (iu @ ib)"
  let ?f = "\<lambda>a. name_rank (name_a a)"
  let ?out = "parseAmenities api iu ib"
  have out: "?out = sort_key ?f (map (toAmenity iu) ?rows)"
    by (rule parseAmenities_sort_key [OF assms])
  have 1: "\<forall>a\<in>set ?out. priority_a a = Some (name_rank (name_a a))"
    using assms unfolding out by (auto simp: toAmenity_priority toAmenity_fields)
  have 2: "sorted (map ?f ?out)"
    unfolding out by (rule sorted_sort_key)
  have 3: "\<forall>k. filter (\<lambda>a. ?f a = k) ?out = filter (\<lambda>a. ?f a = k) (map (toAmenity iu) ?rows)"
    unfolding out by (simp add: sort_key_stable)
  have 4: "\<forall>key info. map_of AMENITY_PRIORITY_MAP key = Some info \<longrightarrow> priority info < 999"
    by (simp add: table_priority_below_999)
  have 5: "map name_a ?out = [Some ''WiFi'', Some ''Closet'', Some ''Unknown-X'']"
    if ms: "mset (map Name ?rows) = {#Some ''Closet'', Some ''WiFi'', Some ''Unknown-X''#}"
  proof (rule sorted_three_names)
    have "mset (map name_a ?out) = image_mset name_a (mset ?out)" by simp
    also have "mset ?out = mset (map (toAmenity iu) ?rows)"
      unfolding out by simp
    also have "image_mset name_a (mset (map (toAmenity iu) ?rows)) = mset (map Name ?rows)"
      by (simp add: toAmenity_fields image_mset.compositionality comp_def)
    finally show "mset (map name_a ?out) = {#Some ''Closet'', Some ''WiFi'', Some ''Unknown-X''#}"
      using ms by simp
    from 2 show "sorted (map name_rank (map name_a ?out))" by (simp add: comp_def)
  qed
  from 1 2 3 4 5 show ?thesis by blast
qed

text \<open>The three records with the first id in-unit and the other two in-building.\<close>

theorem ranking_by_lowercase_name_witness:
  "map name_a (parseAmenities (Table three_rows) [''a''] [''b'', ''c''])
     = [Some ''WiFi'', Some ''Closet'', Some ''Unknown-X'']
   \<and> sorted (map (\<lambda>a. name_rank (name_a a)) (parseAmenities (Table three_rows) [''a''] [''b'', ''c'']))"
proof -
  have rows: "fetchAmenityDetails (Table three_rows) ([''a''] @ [''b'', ''c'']) = three_rows"
    by (simp add: fetchAmenityDetails_def three_rows_def sample_row_def)
  have h: "\<forall>r\<in>set (fetchAmenityDetails (Table three_rows) ([''a''] @ [''b'', ''c''])).
             \<not> inherited_name (Name r)"
    unfolding rows by (simp add: three_rows_def sample_row_def inherited_name_examples)
  have m: "mset (map Name (fetchAmenityDetails (Table three_rows) ([''a''] @ [''b'', ''c''])))
            = {#Some ''Closet'', Some ''WiFi'', Some ''Unknown-X''#}"
    unfolding rows by (simp add: three_rows_def sample_row_def)
  from ranking_by_lowercase_name [OF h] m show ?thesis by blast
qed

text \<open>
  C8 as stated fails for a name with surrounding white space: looked up trimmed, the name
  " WiFi" has rank 1 and precedes Closet of rank 12, but \<open>parseAmenities\<close> gives it the
  priority 999 and puts it after Closet.
\<close>

theorem ranking_trimmed_counterexample:
  "map name_a (parseAmenities (Table [sample_row ''a'' '' WiFi'', sample_row ''b'' ''Closet''])
                 [''a''] [''b''])
     = [Some ''Closet'', Some '' WiFi'']
   \<and> map priority_a (parseAmenities (Table [sample_row ''a'' '' WiFi'', sample_row ''b'' ''Closet''])
                 [''a''] [''b''])
     = [Some 12, Some 999]
   \<and> spec_rank '' WiFi'' = Some 1
   \<and> spec_rank ''Closet'' = Some 12"
proof -
  have a: "toAmenity [''a''] (sample_row ''a'' '' WiFi'')
           = \<lparr>id_a = ''a'', name_a = Some '' WiFi'', icon_a = Some [0x2713], iconUrl_a = None,
              priority_a = Some 999, category_a = InUnit\<rparr>"
    by (simp add: sample_row_def toAmenity_def get_property_def
        AMENITY_PRIORITY_MAP_def Object_prototype_keys_def toLowerCase_def)
  have b: "toAmenity [''a''] (sample_row ''b'' ''Closet'')
           = \<lparr>id_a = ''b'', name_a = Some ''Closet'', icon_a = Some [0x1F454], iconUrl_a = None,
              priority_a = Some 12, category_a = InBuilding\<rparr>"
    by (simp add: sample_row_def toAmenity_def get_property_def
        AMENITY_PRIORITY_MAP_def Object_prototype_keys_def toLowerCase_def)
  have rows: "fetchAmenityDetails (Table [sample_row ''a'' '' WiFi'', sample_row ''b'' ''Closet''])
                ([''a''] @ [''b''])
              = [sample_row ''a'' '' WiFi'', sample_row ''b'' ''Closet'']"
    by (simp add: fetchAmenityDetails_def sample_row_def)
  show ?thesis
    unfolding parseAmenities_eq rows
    by (simp add: a b priority_cmp_def spec_rank_examples)
qed

section \<open>Ids without a record\<close>

text \<open>
  C4, as amended. The output of \<open>parseAmenities\<close> is a permutation of the records that
  the lookup returns, each turned into an amenity object: every entry carries the id and
  the name of a record of the table whose id is among the input ids, and an id with no
  record in the table does not appear in the output.
\<close>

theorem unmatched_ids_omitted:
  "mset (parseAmenities api iu ib)
     = mset (map (toAmenity iu) (fetchAmenityDetails api (iu @ ib)))
   \<and> (\<forall>a\<in>set (parseAmenities (Table rows) iu ib).
         \<exists>r\<in>set rows. id_r r \<in> set (iu @ ib) \<and> id_a a = id_r r \<and> name_a a = Name r)
   \<and> (x \<notin> set (map id_r rows)
        \<longrightarrow> x \<notin> set (map id_a (parseAmenities (Table rows) iu ib)))"
proof -
  have 1: "mset (parseAmenities api iu ib)
     = mset (map (toAmenity iu) (fetchAmenityDetails api (iu @ ib)))"
    unfolding parseAmenities_eq by (rule mset_js_sort)
  have 2: "\<exists>r\<in>set rows. id_r r \<in> set (iu @ ib) \<and> id_a a = id_r r \<and> name_a a = Name r"
    if "a \<in> set (parseAmenities (Table rows) iu ib)" for a
  proof -
    from that have "a \<in> set (map (toAmenity iu) (fetchAmenityDetails (Table rows) (iu @ ib)))"
      unfolding parseAmenities_eq set_js_sort .
    then obtain r where "r \<in> set (fetchAmenityDetails (Table rows) (iu @ ib))"
      and a: "a = toAmenity iu r" by auto
    then have "r \<in> set rows" "id_r r \<in> set (iu @ ib)"
      by (auto simp: fetchAmenityDetails_def split: if_splits)
    with a show ?thesis by (auto simp: toAmenity_fields)
  qed
  have 3: "x \<notin> set (map id_a (parseAmenities (Table rows) iu ib))"
    if "x \<notin> set (map id_r rows)"
  proof
    assume "x \<in> set (map id_a (parseAmenities (Table rows) iu ib))"
    then obtain a where "a \<in> set (parseAmenities (Table rows) iu ib)" and "id_a a = x" by auto
    with 2 [of a] that show False by auto
  qed
  from 1 2 3 show ?thesis by blast
qed

text \<open>The id x has no record in a table that holds only the id a.\<close>

theorem unmatched_ids_omitted_witness:
  "''x'' \<notin> set (map id_a (parseAmenities (Table [sample_row ''a'' ''WiFi'']) [''a'', ''x''] [''y'']))"
proof -
  have h: "''x'' \<notin> set (map id_r [sample_row ''a'' ''WiFi''])"
    by (simp add: sample_row_def)
  from unmatched_ids_omitted [where api = "Table [sample_row ''a'' ''WiFi'']"
      and rows = "[sample_row ''a'' ''WiFi'']" and iu = "[''a'', ''x'']"
      and ib = "[''y'']" and x = "''x''"] h
  show ?thesis by blast
qed

text \<open>
  C4 as stated fails: the input id x has no record, and the output holds the single entry
  for the id a; no entry with the raw id x as its name is produced.
\<close>

theorem unmatched_ids_counterexample:
  "''x'' \<in> set ([''a'', ''x''] @ [''y''])
   \<and> map id_a (parseAmenities (Table [sample_row ''a'' ''WiFi'']) [''a'', ''x''] [''y'']) = [''a'']
   \<and> map name_a (parseAmenities (Table [sample_row ''a'' ''WiFi'']) [''a'', ''x''] [''y''])
       = [Some ''WiFi'']"
proof -
  have rows: "fetchAmenityDetails (Table [sample_row ''a'' ''WiFi'']) ([''a'', ''x''] @ [''y''])
              = [sample_row ''a'' ''WiFi'']"
    by (simp add: fetchAmenityDetails_def sample_row_def)
  show ?thesis
    unfolding parseAmenities_eq rows by (simp add: toAmenity_fields) (simp add: sample_row_def)
qed

section \<open>Ids in both sets\<close>

text \<open>
  C9, as amended. For an id present in both the in-unit and the in-building array, the
  output of \<open>parseAmenities\<close> holds one entry per record of the table with that id
  (exactly one when the table has exactly one such record, none when it has none), and
  each of these entries has the category in-unit.
\<close>

theorem both_sets_in_unit:
  assumes "x \<in> set iu" and "x \<in> set ib"
  shows "map category_a (filter (\<lambda>a. id_a a = x) (parseAmenities (Table rows) iu ib))
           = replicate (length (filter (\<lambda>r. id_r r = x) rows)) InUnit"
proof -
  let ?all = "iu @ ib"
  let ?out = "parseAmenities (Table rows) iu ib"
  let ?sel = "filter (\<lambda>a. id_a a = x) ?out"
  have "length ?sel = size (filter_mset (\<lambda>a. id_a a = x) (mset ?out))"
    by (metis mset_filter size_mset)
  also have "\<dots> = size (filter_mset (\<lambda>a. id_a a = x)
                      (mset (map (toAmenity iu) (fetchAmenityDetails (Table rows) ?all))))"
    unfolding parseAmenities_eq mset_js_sort ..
  also have "\<dots> = length (filter (\<lambda>a. id_a a = x)
                      (map (toAmenity iu) (fetchAmenityDetails (Table rows) ?all)))"
    by (metis mset_filter size_mset)
  also have "\<dots> = length (filter (\<lambda>r. id_r r = x) (fetchAmenityDetails (Table rows) ?all))"
    by (simp add: filter_map comp_def toAmenity_fields)
  also have "filter (\<lambda>r. id_r r = x) (fetchAmenityDetails (Table rows) ?all)
             = filter (\<lambda>r. id_r r = x) rows"
    using assms(1) by (auto simp: fetchAmenityDetails_def intro: filter_cong)
  finally have len: "length ?sel = length (filter (\<lambda>r. id_r r = x) rows)" .
  have "category_a a = InUnit" if "a \<in> set ?sel" for a
  proof -
    from that have "a \<in> set (map (toAmenity iu) (fetchAmenityDetails (Table rows) ?all))"
      and "id_a a = x"
      unfolding parseAmenities_eq by (simp_all add: set_js_sort)
    with assms(1) show ?thesis by (auto simp: toAmenity_fields)
  qed
  then have "map category_a ?sel = replicate (length ?sel) InUnit"
    by (simp add: map_replicate_const [symmetric] cong: map_cong)
  with len show ?thesis by simp
qed

text \<open>The id a in both arrays, with one record in the table.\<close>

theorem both_sets_in_unit_witness:
  "map category_a (filter (\<lambda>a. id_a a = ''a'')
       (parseAmenities (Table [sample_row ''a'' ''WiFi'', sample_row ''b'' ''Closet''])
          [''a''] [''a'', ''b''])) = [InUnit]"
  using both_sets_in_unit [of "''a''" "[''a'']" "[''a'', ''b'']"
      "[sample_row ''a'' ''WiFi'', sample_row ''b'' ''Closet'']"]
  by (simp add: sample_row_def)

text \<open>
  C9 as stated fails when the table has no record for the id: a is in both arrays, and
  the output holds only the entry for b.
\<close>

theorem both_sets_counterexample:
  "''a'' \<in> set [''a''] \<and> ''a'' \<in> set [''a'', ''b'']
   \<and> map id_a (parseAmenities (Table [sample_row ''b'' ''Closet'']) [''a''] [''a'', ''b'']) = [''b'']
   \<and> filter (\<lambda>e. id_a e = ''a'')
        (parseAmenities (Table [sample_row ''b'' ''Closet'']) [''a''] [''a'', ''b'']) = []"
proof -
  have rows: "fetchAmenityDetails (Table [sample_row ''b'' ''Closet'']) ([''a''] @ [''a'', ''b''])
              = [sample_row ''b'' ''Closet'']"
    by (simp add: fetchAmenityDetails_def sample_row_def)
  show ?thesis
    unfolding parseAmenities_eq rows by (simp add: toAmenity_fields) (simp add: sample_row_def)
qed

end
